theory Spec2Isabelle
  imports Main "HOL-Library.Sublist" "HOL-Library.Code_Target_Nat"
begin

section \<open>Text: Python strings as lists of Unicode code points\<close>

text \<open>
  A Python \<open>str\<close> is a sequence of Unicode code points and \<open>len\<close> counts code points.
  The Czech letters of the translator lie outside Latin-1, so a character is a natural
  number (its code point) and a string is a list of them. \<open>str\<close> reads an ASCII literal.
\<close>

type_synonym uchar = nat
type_synonym ustr = "nat list"

definition str :: "string \<Rightarrow> ustr" where
  "str s = map of_char s"

text \<open>
  Czech words are written in ASCII: \<open>/\<close> after a letter puts an acute on it, \<open>^\<close> a
  caron and \<open>*\<close> a ring, so \<open>cz ''zpu*sob''\<close> is the word with U+016F in third place.
\<close>

definition acute :: "uchar \<Rightarrow> uchar" where
  "acute c = (if c = 97 then 225 else if c = 101 then 233 else if c = 105 then 237
     else if c = 111 then 243 else if c = 117 then 250 else if c = 121 then 253
     else if c = 65 then 193 else if c = 69 then 201 else if c = 73 then 205
     else if c = 79 then 211 else if c = 85 then 218 else if c = 89 then 221 else c)"

definition caron :: "uchar \<Rightarrow> uchar" where
  "caron c = (if c = 99 then 269 else if c = 100 then 271 else if c = 101 then 283
     else if c = 110 then 328 else if c = 114 then 345 else if c = 115 then 353
     else if c = 116 then 357 else if c = 122 then 382
     else if c = 67 then 268 else if c = 68 then 270 else if c = 69 then 282
     else if c = 78 then 327 else if c = 82 then 344 else if c = 83 then 352
     else if c = 84 then 356 else if c = 90 then 381 else c)"

definition ring :: "uchar \<Rightarrow> uchar" where
  "ring c = (if c = 117 then 367 else if c = 85 then 366 else c)"

fun accents :: "ustr \<Rightarrow> ustr" where
  "accents (c # m # cs) =
     (if m = 47 then acute c # accents cs
      else if m = 94 then caron c # accents cs
      else if m = 42 then ring c # accents cs
      else c # accents (m # cs))"
| "accents cs = cs"

definition cz :: "string \<Rightarrow> ustr" where
  "cz s = accents (str s)"

abbreviation sp :: uchar where "sp \<equiv> 32"
abbreviation lt :: uchar where "lt \<equiv> 60"
abbreviation gt :: uchar where "gt \<equiv> 62"
abbreviation slash :: uchar where "slash \<equiv> 47"

text \<open>
  Python's \<open>str.isspace\<close>, which is also \<open>\s\<close> of a \<open>str\<close> pattern and what
  \<open>str.strip\<close> removes: the complete list of Unicode white space.
\<close>

definition is_space :: "uchar \<Rightarrow> bool" where
  "is_space c \<longleftrightarrow>
     (9 \<le> c \<and> c \<le> 13) \<or> (28 \<le> c \<and> c \<le> 32) \<or> c = 133 \<or> c = 160 \<or> c = 5760
     \<or> (8192 \<le> c \<and> c \<le> 8202) \<or> c = 8232 \<or> c = 8233 \<or> c = 8239 \<or> c = 8287
     \<or> c = 12288"

definition in_range :: "uchar \<Rightarrow> uchar \<Rightarrow> uchar \<Rightarrow> bool" where
  "in_range lo hi c \<longleftrightarrow> lo \<le> c \<and> c \<le> hi"

definition one_of :: "ustr \<Rightarrow> uchar \<Rightarrow> bool" where
  "one_of l c \<longleftrightarrow> c \<in> set l"

section \<open>Regular-expression substitution\<close>

text \<open>
  \<open>re.sub\<close> and \<open>str.replace\<close> scan the subject from the left; where the pattern
  matches, the match is replaced and the scan goes on behind it (matches do not overlap);
  elsewhere one character is copied. A matcher gets the character before the position
  (for \<open>\b\<close>) and the rest of the subject, and returns the length of the match there.
  No pattern of the translator matches the empty string; a length \<open>0\<close> is read as no match.
\<close>

type_synonym matcher = "uchar option \<Rightarrow> ustr \<Rightarrow> nat option"

function re_sub :: "matcher \<Rightarrow> (ustr \<Rightarrow> ustr) \<Rightarrow> uchar option \<Rightarrow> ustr \<Rightarrow> ustr" where
  "re_sub m r prev [] = []"
| "re_sub m r prev (c # cs) =
     (case m prev (c # cs) of
        None \<Rightarrow> c # re_sub m r (Some c) cs
      | Some n \<Rightarrow>
          if n = 0 then c # re_sub m r (Some c) cs
          else r (take n (c # cs))
               @ re_sub m r (Some (last (take n (c # cs)))) (drop n (c # cs)))"
  by pat_completeness auto
termination
  by (relation "measure (\<lambda>(m, r, prev, s). length s)") auto

text \<open>Pieces of patterns, matched at the head of a string: the length matched.\<close>

type_synonym piece = "ustr \<Rightarrow> nat option"

definition p_lit :: "ustr \<Rightarrow> piece" where
  "p_lit w s = (if prefix w s then Some (length w) else None)"

text \<open>\<open>[^>]*>\<close>: everything up to and including the first \<open>>\<close>.\<close>

fun upto_gt :: piece where
  "upto_gt [] = None"
| "upto_gt (c # cs) = (if c = gt then Some 1 else map_option Suc (upto_gt cs))"

text \<open>\<open>(?:w1|w2|...)[^>]*>\<close>: the alternatives in order, each followed by \<open>[^>]*>\<close>.\<close>

fun alt_upto_gt :: "ustr list \<Rightarrow> piece" where
  "alt_upto_gt [] s = None"
| "alt_upto_gt (w # ws) s =
     (if prefix w s then
        (case upto_gt (drop (length w) s) of
           Some k \<Rightarrow> Some (length w + k)
         | None \<Rightarrow> alt_upto_gt ws s)
      else alt_upto_gt ws s)"

text \<open>\<open><(?:w1|w2|...)[^>]*>\<close>\<close>

definition p_open :: "ustr list \<Rightarrow> piece" where
  "p_open names s =
     (case s of [] \<Rightarrow> None
      | c # cs \<Rightarrow> if c = lt then map_option Suc (alt_upto_gt names cs) else None)"

text \<open>\<open></(?:w1|w2|...)>\<close>\<close>

fun p_close :: "ustr list \<Rightarrow> piece" where
  "p_close [] s = None"
| "p_close (w # ws) s =
     (if prefix (lt # slash # w @ [gt]) s then Some (length w + 3) else p_close ws s)"

text \<open>\<open>([class])(piece)\<close> and \<open>(piece)([class])\<close>, both replaced by \<open>\1 \2\<close>.\<close>

definition char_then :: "(uchar \<Rightarrow> bool) \<Rightarrow> piece \<Rightarrow> matcher" where
  "char_then cls p prev s =
     (case s of [] \<Rightarrow> None
      | c # cs \<Rightarrow> if cls c then map_option Suc (p cs) else None)"

definition then_char :: "piece \<Rightarrow> (uchar \<Rightarrow> bool) \<Rightarrow> matcher" where
  "then_char p cls prev s =
     (case p s of None \<Rightarrow> None
      | Some k \<Rightarrow>
          (case drop k s of [] \<Rightarrow> None
           | c # cs \<Rightarrow> if cls c then Some (Suc k) else None))"

definition space_after_first :: "ustr \<Rightarrow> ustr" where
  "space_after_first m = take 1 m @ sp # drop 1 m"

definition space_before_last :: "ustr \<Rightarrow> ustr" where
  "space_before_last m = butlast m @ [sp, last m]"

definition sub_before :: "(uchar \<Rightarrow> bool) \<Rightarrow> piece \<Rightarrow> ustr \<Rightarrow> ustr" where
  "sub_before cls p s = re_sub (char_then cls p) space_after_first None s"

definition sub_after :: "piece \<Rightarrow> (uchar \<Rightarrow> bool) \<Rightarrow> ustr \<Rightarrow> ustr" where
  "sub_after p cls s = re_sub (then_char p cls) space_before_last None s"

text \<open>\<open>str.replace(old, new)\<close>\<close>

definition replace :: "ustr \<Rightarrow> ustr \<Rightarrow> ustr \<Rightarrow> ustr" where
  "replace old new s = re_sub (\<lambda>prev. p_lit old) (\<lambda>m. new) None s"

text \<open>\<open>class{n,}\<close> at the head: the whole run, when it has at least \<open>n\<close> characters.\<close>

definition run_of :: "nat \<Rightarrow> (uchar \<Rightarrow> bool) \<Rightarrow> matcher" where
  "run_of n cls prev s =
     (let k = length (takeWhile cls s) in if n \<le> k then Some k else None)"

text \<open>\<open>re.sub(r' {2,}', ' ', s)\<close> and \<open>re.sub(r'\s{2,}', ' ', s)\<close>\<close>

definition collapse_spaces :: "ustr \<Rightarrow> ustr" where
  "collapse_spaces s = re_sub (run_of 2 (\<lambda>c. c = sp)) (\<lambda>m. [sp]) None s"

definition collapse_whitespace :: "ustr \<Rightarrow> ustr" where
  "collapse_whitespace s = re_sub (run_of 2 is_space) (\<lambda>m. [sp]) None s"

text \<open>
  \<open>re.split(r'([.!?]+\s*)', s)\<close>: the text between the matches and, the group being
  captured, the matches themselves, alternating; the first argument is the text
  collected since the last match.
\<close>

definition is_terminator :: "uchar \<Rightarrow> bool" where
  "is_terminator c \<longleftrightarrow> one_of (str ''.!?'') c"

definition terminator_len :: "ustr \<Rightarrow> nat" where
  "terminator_len s =
     length (takeWhile is_terminator s)
       + length (takeWhile is_space (dropWhile is_terminator s))"

function split_sentences :: "ustr \<Rightarrow> ustr \<Rightarrow> ustr list" where
  "split_sentences acc [] = [acc]"
| "split_sentences acc (c # cs) =
     (if is_terminator c then
        acc # take (terminator_len (c # cs)) (c # cs)
            # split_sentences [] (drop (terminator_len (c # cs)) (c # cs))
      else split_sentences (acc @ [c]) cs)"
  by pat_completeness auto
termination
  by (relation "measure (\<lambda>(acc, s). length s)") (auto simp: terminator_len_def)

section \<open>Tag shielding: \<open>preprocess_for_translation\<close> and \<open>restore_html_tags\<close>\<close>

definition inline_tags :: "ustr list" where
  "inline_tags = [str ''strong'', str ''em'', str ''b'', str ''i'', str ''u'', str ''span'']"

definition other_tags :: "ustr list" where
  "other_tags = [str ''em'', str ''b'', str ''i'', str ''u'', str ''span'']"

text \<open>\<open>html_pattern = r'</?(?:strong|em|b|i|u|span)[^>]*>'\<close>\<close>

definition html_pattern :: piece where
  "html_pattern s =
     (case s of [] \<Rightarrow> None
      | c # cs \<Rightarrow>
          if c \<noteq> lt then None
          else (case (if prefix [slash] cs then alt_upto_gt inline_tags (tl cs) else None) of
                  Some k \<Rightarrow> Some (k + 2)
                | None \<Rightarrow> map_option Suc (alt_upto_gt inline_tags cs)))"

text \<open>\<open>f'{counter}'\<close>: the decimal digits of the counter.\<close>

fun decimal :: "nat \<Rightarrow> ustr" where
  "decimal n = (if n < 10 then [48 + n] else decimal (n div 10) @ [48 + n mod 10])"

declare decimal.simps [simp del]

definition placeholder :: "nat \<Rightarrow> ustr" where
  "placeholder n = str ''HTMLTAG'' @ decimal n @ str ''ENDTAG''"

text \<open>
  \<open>re.sub(html_pattern, replace_tag, result)\<close> with the callback's counter: the rewritten
  text and the entries put into \<open>self.html_replacements\<close>, in insertion order.
\<close>

function replace_tag :: "nat \<Rightarrow> ustr \<Rightarrow> ustr \<times> (ustr \<times> ustr) list" where
  "replace_tag counter [] = ([], [])"
| "replace_tag counter (c # cs) =
     (case html_pattern (c # cs) of
        None \<Rightarrow> (let (out, reps) = replace_tag counter cs in (c # out, reps))
      | Some n \<Rightarrow>
          if n = 0 then (let (out, reps) = replace_tag counter cs in (c # out, reps))
          else (let (out, reps) = replace_tag (counter + 1) (drop n (c # cs))
                in (sp # placeholder counter @ sp # out,
                    (placeholder counter, take n (c # cs)) # reps)))"
  by pat_completeness auto
termination
  by (relation "measure (\<lambda>(counter, s). length s)") auto

text \<open>
  The state of a \<open>SlovakCzechTranslator\<close> that the calls change: the attribute
  \<open>html_replacements\<close> (\<open>None\<close> until the first shielding sets it), the number of calls
  made to the translation engine, and the seconds spent in \<open>time.sleep\<close>.
\<close>

record tstate =
  html_replacements :: "(ustr \<times> ustr) list option"
  calls :: nat
  slept :: nat

definition init_state :: tstate where
  "init_state = \<lparr>html_replacements = None, calls = 0, slept = 0\<rparr>"

definition preprocess_for_translation :: "tstate \<Rightarrow> ustr \<Rightarrow> ustr \<times> tstate" where
  "preprocess_for_translation st text =
     (if text = [] then (text, st)
      else (let (result, reps) = replace_tag 0 text
            in (collapse_spaces result, st\<lparr>html_replacements := Some reps\<rparr>)))"

text \<open>The class of \<open>restore_html_tags\<close>: \<open>a-z\<close>, \<open>A-Z\<close>, \<open>0-9\<close>, U+00C0 to U+017F, and \<open>.,;:!?-\<close>.\<close>

definition latin_alnum :: "uchar \<Rightarrow> bool" where
  "latin_alnum c \<longleftrightarrow>
     in_range 97 122 c \<or> in_range 65 90 c \<or> in_range 48 57 c \<or> in_range 192 383 c"

definition restore_class :: "uchar \<Rightarrow> bool" where
  "restore_class c \<longleftrightarrow> latin_alnum c \<or> one_of (str ''.,;:!?-'') c"

definition restore_html_tags :: "tstate \<Rightarrow> ustr \<Rightarrow> ustr" where
  "restore_html_tags st text =
     (if text = [] then text
      else case html_replacements st of
        None \<Rightarrow> text
      | Some reps \<Rightarrow>
          (let result = foldl (\<lambda>r (ph, original_tag). replace ph original_tag r) text reps;
               result = sub_before restore_class (p_open [str ''strong'']) result;
               result = sub_after (p_lit (str ''</strong>'')) restore_class result;
               result = sub_before restore_class (p_open other_tags) result;
               result = sub_after (p_close other_tags) restore_class result
           in collapse_spaces result))"

section \<open>The translation call: \<open>translate_with_google\<close> and \<open>_translate_long_text\<close>\<close>

text \<open>
  The translation engine is outside the repository. \<open>e n text\<close> is what the call number
  \<open>n\<close> (counted from 0) returns for \<open>text\<close>; \<open>None\<close> stands for any exception.
\<close>

type_synonym engine = "nat \<Rightarrow> ustr \<Rightarrow> ustr option"

definition max_retries :: nat where "max_retries = 3"
definition retry_delay :: nat where "retry_delay = 1"
definition chunk_limit :: nat where "chunk_limit = 4500"

text \<open>
  One chunk of \<open>_translate_long_text\<close>: shield, call the engine, restore; when the call
  raises, the shielded chunk is restored instead. The source has this block twice, for
  the chunks inside the loop and for the last one.
\<close>

definition translate_chunk :: "engine \<Rightarrow> tstate \<Rightarrow> ustr \<Rightarrow> ustr \<times> tstate" where
  "translate_chunk e st current_chunk =
     (let (preprocessed_chunk, st1) = preprocess_for_translation st current_chunk;
          st2 = st1\<lparr>calls := calls st1 + 1\<rparr>
      in case e (calls st1) preprocessed_chunk of
           Some result \<Rightarrow> (restore_html_tags st2 result, st2)
         | None \<Rightarrow> (restore_html_tags st2 preprocessed_chunk, st2))"

fun chunk_loop ::
  "engine \<Rightarrow> ustr list \<Rightarrow> ustr \<Rightarrow> ustr list \<Rightarrow> tstate \<Rightarrow> ustr list \<times> ustr \<times> tstate" where
  "chunk_loop e [] current_chunk translated_parts st = (translated_parts, current_chunk, st)"
| "chunk_loop e (part # sentences) current_chunk translated_parts st =
     (if length (current_chunk @ part) < chunk_limit
      then chunk_loop e sentences (current_chunk @ part) translated_parts st
      else if current_chunk \<noteq> []
      then (let (translated_chunk, st') = translate_chunk e st current_chunk
            in chunk_loop e sentences part (translated_parts @ [translated_chunk]) st')
      else chunk_loop e sentences part translated_parts st)"

definition translate_long_text :: "engine \<Rightarrow> tstate \<Rightarrow> ustr \<Rightarrow> ustr \<times> tstate" where
  "translate_long_text e st text =
     (let (translated_parts, current_chunk, st1) =
            chunk_loop e (split_sentences [] text) [] [] st
      in if current_chunk \<noteq> []
         then (let (translated_chunk, st2) = translate_chunk e st1 current_chunk
               in (concat (translated_parts @ [translated_chunk]), st2))
         else (concat translated_parts, st1))"

text \<open>
  The retry loop \<open>for attempt in range(self.max_retries)\<close>, from attempt \<open>attempt\<close> on.
  Every pass through the body returns or goes to the next attempt, and the last attempt
  returns, so the loop never ends without a value.
\<close>

function attempts :: "engine \<Rightarrow> ustr \<Rightarrow> nat \<Rightarrow> tstate \<Rightarrow> ustr \<times> tstate" where
  "attempts e preprocessed_text attempt st =
     (if length preprocessed_text > chunk_limit
      then translate_long_text e st preprocessed_text
      else (let st1 = st\<lparr>calls := calls st + 1\<rparr>
            in case e (calls st) preprocessed_text of
                 Some result \<Rightarrow> (restore_html_tags st1 result, st1)
               | None \<Rightarrow>
                   if attempt < max_retries - 1
                   then attempts e preprocessed_text (attempt + 1)
                          (st1\<lparr>slept := slept st1 + retry_delay\<rparr>)
                   else (preprocessed_text, st1)))"
  by pat_completeness auto
termination
  by (relation "measure (\<lambda>(e, p, attempt, st). max_retries - 1 - attempt)") auto

declare attempts.simps [simp del]

definition blank :: "ustr \<Rightarrow> bool" where
  "blank text \<longleftrightarrow> list_all is_space text"

definition translate_with_google :: "engine \<Rightarrow> tstate \<Rightarrow> ustr \<Rightarrow> ustr \<times> tstate" where
  "translate_with_google e st text =
     (if text = [] \<or> blank text then (text, st)
      else (let (preprocessed_text, st1) = preprocess_for_translation st text
            in attempts e preprocessed_text 0 st1))"

text \<open>The two engines of the claims: one that returns its input, one that always fails.\<close>

definition passthrough :: engine where
  "passthrough n text = Some text"

definition failing :: engine where
  "failing n text = None"

section \<open>What Python takes from the Unicode database\<close>

text \<open>
  \<open>\w\<close>, \<open>\b\<close>, \<open>str.isalpha\<close>, \<open>str.isupper\<close>, \<open>str.upper\<close> and
  \<open>re.IGNORECASE\<close> read Python's Unicode tables, which are not part of the repository.
  The functions that use them take the tables as a parameter. \<open>fold_case\<close> sends each
  character to one representative of the characters that \<open>re.IGNORECASE\<close> takes for
  the same; \<open>to_upper\<close> is \<open>str.upper\<close> of one character, which may be several.
\<close>

record unicode =
  word_char :: "uchar \<Rightarrow> bool"
  alpha :: "uchar \<Rightarrow> bool"
  upper_case :: "uchar \<Rightarrow> bool"
  to_upper :: "uchar \<Rightarrow> ustr"
  fold_case :: "uchar \<Rightarrow> uchar"

text \<open>\<open>\b\<close> between the character before (if any) and the rest of the subject.\<close>

definition word_boundary :: "unicode \<Rightarrow> uchar option \<Rightarrow> ustr \<Rightarrow> bool" where
  "word_boundary U prev s \<longleftrightarrow>
     (case prev of None \<Rightarrow> False | Some p \<Rightarrow> word_char U p)
       \<noteq> (case s of [] \<Rightarrow> False | c # cs \<Rightarrow> word_char U c)"

section \<open>Spacing repair: \<open>fix_html_spacing\<close>\<close>

definition html_tags :: "ustr list" where
  "html_tags = [str ''strong'', str ''em'', str ''b'', str ''i'', str ''u'', str ''span'']"

definition czech_words :: "ustr list" where
  "czech_words =
     [str ''na'', str ''pro'', str ''do'', str ''za'', str ''od'', str ''po'',
      cz ''pr^i'', cz ''pr^ed'', str ''nad'', str ''pod'', str ''mezi'', str ''v'',
      str ''s'', str ''k'', str ''o'', str ''u'', str ''z'', str ''i'', str ''a'',
      str ''ale'', str ''nebo'', cz ''z^e'', str ''aby'', cz ''na/stroj'',
      str ''program'', str ''funkce'', cz ''moz^nost'', cz ''zpu*sob'', str ''metoda'']"

text \<open>\<open>\bword(<tag[^>]*>)\<close>, replaced by the word, a space and the tag.\<close>

definition word_then_open :: "unicode \<Rightarrow> ustr \<Rightarrow> ustr \<Rightarrow> matcher" where
  "word_then_open U word tag prev s =
     (if word_boundary U prev s \<and> prefix word s
      then map_option (\<lambda>k. length word + k) (p_open [tag] (drop (length word) s))
      else None)"

definition sub_word_open :: "unicode \<Rightarrow> ustr \<Rightarrow> ustr \<Rightarrow> ustr \<Rightarrow> ustr" where
  "sub_word_open U word tag s =
     re_sub (word_then_open U word tag) (\<lambda>m. word @ sp # drop (length word) m) None s"

text \<open>
  The classes of the camel-case pattern, \<open>a-z\<close> and \<open>A-Z\<close> with the fifteen accented
  Czech letters of each case, and the pattern
  \<open>([lower]{2,})([upper])(?!Up|Sync|Render|Max|CAD|Live)\<close>: the run of lower-case
  letters is taken whole, since a shorter run is followed by a lower-case letter.
\<close>

definition czech_lower :: "uchar \<Rightarrow> bool" where
  "czech_lower c \<longleftrightarrow> in_range 97 122 c \<or> c \<in> set (cz ''a/c^d^e/e^i/n^o/r^s^t^u/u*y/z^'')"

definition czech_upper :: "uchar \<Rightarrow> bool" where
  "czech_upper c \<longleftrightarrow> in_range 65 90 c \<or> c \<in> set (cz ''A/C^D^E/E^I/N^O/R^S^T^U/U*Y/Z^'')"

definition brand_suffixes :: "ustr list" where
  "brand_suffixes =
     [str ''Up'', str ''Sync'', str ''Render'', str ''Max'', str ''CAD'', str ''Live'']"

definition camel_case :: matcher where
  "camel_case prev s =
     (let k = length (takeWhile czech_lower s)
      in if 2 \<le> k then
           (case drop k s of
              [] \<Rightarrow> None
            | c # rest \<Rightarrow>
                if czech_upper c \<and> \<not> list_ex (\<lambda>w. prefix w rest) brand_suffixes
                then Some (Suc k) else None)
         else None)"

definition brand_fixes :: "(ustr \<times> ustr) list" where
  "brand_fixes =
     [(str ''Sketch Up'', str ''SketchUp''), (str ''sketch up'', str ''SketchUp''),
      (str ''Live Sync'', str ''LiveSync''), (str ''live sync'', str ''LiveSync''),
      (str ''D5 Render'', str ''D5 Render''), (str ''3ds Max'', str ''3ds Max''),
      (str ''Archi CAD'', str ''ArchiCAD''), (str ''archi cad'', str ''ArchiCAD'')]"

definition fix_html_spacing :: "unicode \<Rightarrow> ustr \<Rightarrow> ustr" where
  "fix_html_spacing U text =
     (if text = [] then text
      else
        (let result = text;
             result = foldl (\<lambda>r tag.
                 sub_before (\<lambda>c. word_char U c \<or> one_of (str ''.,;:!?'') c) (p_open [tag]) r)
                 result html_tags;
             result = foldl (\<lambda>r tag. sub_after (p_close [tag]) (word_char U) r)
                 result html_tags;
             result = sub_before (one_of (str ''.!?:;,'')) (p_open inline_tags) result;
             result = foldl (\<lambda>r word. foldl (\<lambda>r tag. sub_word_open U word tag r) r html_tags)
                 result czech_words;
             result = re_sub camel_case space_before_last None result;
             result = collapse_spaces result
         in foldl (\<lambda>r (wrong, correct). replace wrong correct r) result brand_fixes))"

section \<open>Spacing repair: \<open>post_translation_spacing_fix\<close>\<close>

definition czech_prepositions :: "ustr list" where
  "czech_prepositions =
     [str ''na'', str ''pro'', str ''do'', str ''za'', str ''od'', str ''po'',
      cz ''pr^i'', cz ''pr^ed'', str ''nad'', str ''pod'', str ''mezi'', str ''bez'',
      str ''podle'', cz ''be^hem'', str ''kolem'', str ''okolo'', str ''vedle'',
      str ''mimo'', str ''skrz'', cz ''pr^es'', str ''v'', str ''s'', str ''k'',
      str ''o'', str ''u'', str ''z'', str ''i'', str ''a'', str ''ale'', str ''nebo'',
      cz ''z^e'', str ''aby'', str ''obsahuje'', cz ''nabi/zi/'', cz ''umoz^ni/'',
      cz ''mu*z^ete'', str ''budete'', str ''budou'', cz ''maji/'', str ''jsou'',
      cz ''te/to'', str ''tohoto'', cz ''te/to'', str ''tomto'', str ''tyto'',
      cz ''take/'', cz ''vi/ce'', cz ''vs^echny'', cz ''pra/ce'', cz ''na/stroj'',
      str ''program'', str ''software'', str ''funkce'', cz ''moz^nost'']"

text \<open>The classes \<open>[A-Z]\<close> with U+00C0 to U+017F, and \<open>[a-zA-Z]\<close> with the same range.\<close>

definition capital_or_latin :: "uchar \<Rightarrow> bool" where
  "capital_or_latin c \<longleftrightarrow> in_range 65 90 c \<or> in_range 192 383 c"

definition latin_alpha :: "uchar \<Rightarrow> bool" where
  "latin_alpha c \<longleftrightarrow> in_range 97 122 c \<or> in_range 65 90 c \<or> in_range 192 383 c"

definition post_translation_spacing_fix :: "unicode \<Rightarrow> ustr \<Rightarrow> ustr" where
  "post_translation_spacing_fix U text =
     (if text = [] then text
      else
        (let result = text;
             result = sub_before (word_char U) (p_open inline_tags) result;
             result = sub_after (p_close inline_tags) (word_char U) result;
             result = sub_before (one_of (str ''.,;:!?'')) (p_open inline_tags) result;
             result = foldl (\<lambda>r word.
                 replace (word @ str ''<em>'') (word @ str '' <em>'')
                   (replace (word @ str ''<strong>'') (word @ str '' <strong>'') r))
                 result czech_prepositions;
             result = sub_before (one_of (str ''.!?'')) (p_open inline_tags) result;
             result = sub_after (p_close inline_tags) capital_or_latin result;
             result = sub_before latin_alnum (p_open [str ''strong'']) result;
             result = sub_after (p_lit (str ''</strong>'')) latin_alpha result;
             result = sub_before latin_alnum (p_open [str ''em'']) result;
             result = sub_after (p_lit (str ''</em>'')) latin_alpha result
         in collapse_spaces result))"

section \<open>Spacing repair: \<open>force_strong_tag_spacing\<close>\<close>

definition problematic_patterns :: "(ustr \<times> ustr) list" where
  "problematic_patterns =
     [(str ''na<strong>'', str ''na <strong>''),
      (str ''pro<strong>'', str ''pro <strong>''),
      (str ''do<strong>'', str ''do <strong>''),
      (str ''za<strong>'', str ''za <strong>''),
      (str ''od<strong>'', str ''od <strong>''),
      (str ''po<strong>'', str ''po <strong>''),
      (cz ''pr^i<strong>'', cz ''pr^i <strong>''),
      (cz ''pr^ed<strong>'', cz ''pr^ed <strong>''),
      (str ''nad<strong>'', str ''nad <strong>''),
      (str ''pod<strong>'', str ''pod <strong>''),
      (str ''mezi<strong>'', str ''mezi <strong>''),
      (str ''bez<strong>'', str ''bez <strong>''),
      (str ''podle<strong>'', str ''podle <strong>''),
      (cz ''be^hem<strong>'', cz ''be^hem <strong>''),
      (str ''kolem<strong>'', str ''kolem <strong>''),
      (cz ''na/stroj<strong>'', cz ''na/stroj <strong>''),
      (str ''program<strong>'', str ''program <strong>''),
      (str ''software<strong>'', str ''software <strong>''),
      (str ''funkce<strong>'', str ''funkce <strong>''),
      (cz ''moz^nost<strong>'', cz ''moz^nost <strong>''),
      (cz ''zpu*sob<strong>'', cz ''zpu*sob <strong>''),
      (str ''metoda<strong>'', str ''metoda <strong>''),
      (str ''a<strong>'', str ''a <strong>''), (str ''e<strong>'', str ''e <strong>''),
      (str ''i<strong>'', str ''i <strong>''), (str ''o<strong>'', str ''o <strong>''),
      (str ''u<strong>'', str ''u <strong>''), (str ''y<strong>'', str ''y <strong>''),
      (str ''v<strong>'', str ''v <strong>''), (str ''s<strong>'', str ''s <strong>''),
      (str ''k<strong>'', str ''k <strong>''), (str ''z<strong>'', str ''z <strong>''),
      (cz ''e^<strong>'', cz ''e^ <strong>''), (cz ''a/<strong>'', cz ''a/ <strong>''),
      (cz ''e/<strong>'', cz ''e/ <strong>''), (cz ''i/<strong>'', cz ''i/ <strong>''),
      (cz ''o/<strong>'', cz ''o/ <strong>''), (cz ''u/<strong>'', cz ''u/ <strong>''),
      (cz ''u*<strong>'', cz ''u* <strong>''), (cz ''y/<strong>'', cz ''y/ <strong>''),
      (cz ''c^<strong>'', cz ''c^ <strong>''), (cz ''d^<strong>'', cz ''d^ <strong>''),
      (cz ''n^<strong>'', cz ''n^ <strong>''), (cz ''r^<strong>'', cz ''r^ <strong>''),
      (cz ''s^<strong>'', cz ''s^ <strong>''), (cz ''t^<strong>'', cz ''t^ <strong>''),
      (cz ''z^<strong>'', cz ''z^ <strong>''), (str ''0<strong>'', str ''0 <strong>''),
      (str ''1<strong>'', str ''1 <strong>''), (str ''2<strong>'', str ''2 <strong>''),
      (str ''3<strong>'', str ''3 <strong>''), (str ''4<strong>'', str ''4 <strong>''),
      (str ''5<strong>'', str ''5 <strong>''), (str ''6<strong>'', str ''6 <strong>''),
      (str ''7<strong>'', str ''7 <strong>''), (str ''8<strong>'', str ''8 <strong>''),
      (str ''9<strong>'', str ''9 <strong>''), (str ''.<strong>'', str ''. <strong>''),
      (str '',<strong>'', str '', <strong>''), (str '';<strong>'', str ''; <strong>''),
      (str '':<strong>'', str '': <strong>''), (str ''!<strong>'', str ''! <strong>''),
      (str ''?<strong>'', str ''? <strong>'')]"

definition closing_patterns :: "(ustr \<times> ustr) list" where
  "closing_patterns =
     [(str ''</strong>V'', str ''</strong> V''),
      (str ''</strong>T'', str ''</strong> T''),
      (str ''</strong>A'', str ''</strong> A''),
      (str ''</strong>I'', str ''</strong> I''),
      (str ''</strong>O'', str ''</strong> O''),
      (str ''</strong>U'', str ''</strong> U''),
      (str ''</strong>E'', str ''</strong> E''),
      (str ''</strong>N'', str ''</strong> N''),
      (str ''</strong>S'', str ''</strong> S''),
      (str ''</strong>K'', str ''</strong> K''),
      (str ''</strong>P'', str ''</strong> P''),
      (str ''</strong>R'', str ''</strong> R''),
      (str ''</strong>L'', str ''</strong> L''),
      (str ''</strong>M'', str ''</strong> M''),
      (str ''</strong>D'', str ''</strong> D''),
      (str ''</strong>B'', str ''</strong> B''),
      (str ''</strong>C'', str ''</strong> C''),
      (str ''</strong>F'', str ''</strong> F''),
      (str ''</strong>G'', str ''</strong> G''),
      (str ''</strong>H'', str ''</strong> H''),
      (str ''</strong>J'', str ''</strong> J''),
      (str ''</strong>Q'', str ''</strong> Q''),
      (str ''</strong>W'', str ''</strong> W''),
      (str ''</strong>X'', str ''</strong> X''),
      (str ''</strong>Y'', str ''</strong> Y''),
      (str ''</strong>Z'', str ''</strong> Z''),
      (str ''</strong>'' @ cz ''A/'', str ''</strong> '' @ cz ''A/''),
      (str ''</strong>'' @ cz ''E/'', str ''</strong> '' @ cz ''E/''),
      (str ''</strong>'' @ cz ''I/'', str ''</strong> '' @ cz ''I/''),
      (str ''</strong>'' @ cz ''O/'', str ''</strong> '' @ cz ''O/''),
      (str ''</strong>'' @ cz ''U/'', str ''</strong> '' @ cz ''U/''),
      (str ''</strong>'' @ cz ''U*'', str ''</strong> '' @ cz ''U*''),
      (str ''</strong>'' @ cz ''Y/'', str ''</strong> '' @ cz ''Y/''),
      (str ''</strong>'' @ cz ''C^'', str ''</strong> '' @ cz ''C^''),
      (str ''</strong>'' @ cz ''D^'', str ''</strong> '' @ cz ''D^''),
      (str ''</strong>'' @ cz ''E^'', str ''</strong> '' @ cz ''E^''),
      (str ''</strong>'' @ cz ''N^'', str ''</strong> '' @ cz ''N^''),
      (str ''</strong>'' @ cz ''R^'', str ''</strong> '' @ cz ''R^''),
      (str ''</strong>'' @ cz ''S^'', str ''</strong> '' @ cz ''S^''),
      (str ''</strong>'' @ cz ''T^'', str ''</strong> '' @ cz ''T^''),
      (str ''</strong>'' @ cz ''Z^'', str ''</strong> '' @ cz ''Z^''),
      (str ''</strong>0'', str ''</strong> 0''),
      (str ''</strong>1'', str ''</strong> 1''),
      (str ''</strong>2'', str ''</strong> 2''),
      (str ''</strong>3'', str ''</strong> 3''),
      (str ''</strong>4'', str ''</strong> 4''),
      (str ''</strong>5'', str ''</strong> 5''),
      (str ''</strong>6'', str ''</strong> 6''),
      (str ''</strong>7'', str ''</strong> 7''),
      (str ''</strong>8'', str ''</strong> 8''), (str ''</strong>9'', str ''</strong> 9'')]"

text \<open>The class of the last pass: \<open>a-z\<close>, \<open>A-Z\<close>, \<open>0-9\<close>, the Czech letters, \<open>.,;:!?\<close>.\<close>

definition final_class :: "uchar \<Rightarrow> bool" where
  "final_class c \<longleftrightarrow>
     in_range 97 122 c \<or> in_range 65 90 c \<or> in_range 48 57 c
     \<or> c \<in> set (cz ''a/c^d^e/e^i/n^o/r^s^t^u/u*y/z^A/C^D^E/E^I/N^O/R^S^T^U/U*Y/Z^'')
     \<or> one_of (str ''.,;:!?'') c"

definition not_space :: "uchar \<Rightarrow> bool" where
  "not_space c \<longleftrightarrow> \<not> is_space c"

definition force_strong_tag_spacing :: "ustr \<Rightarrow> ustr" where
  "force_strong_tag_spacing text =
     (if text = [] then text
      else
        (let result = text;
             result = sub_before not_space (p_lit (str ''<strong'')) result;
             result = sub_after (p_lit (str ''</strong>'')) not_space result;
             result = foldl (\<lambda>r (original, fixed). replace original fixed r)
                 result problematic_patterns;
             result = foldl (\<lambda>r (original, fixed). replace original fixed r)
                 result closing_patterns;
             result = sub_before final_class (p_lit (str ''<strong'')) result;
             result = sub_after (p_lit (str ''</strong>'')) final_class result
         in collapse_spaces result))"

text \<open>
  Spacing reconciliation: the three repair passes in the order in which
  \<open>translate_text\<close> runs them.
\<close>

definition reconcile :: "unicode \<Rightarrow> ustr \<Rightarrow> ustr" where
  "reconcile U s = force_strong_tag_spacing (post_translation_spacing_fix U (fix_html_spacing U s))"

section \<open>The Unicode tables for U+0000 to U+017F\<close>

text \<open>
  The tables of Python's Unicode database for Basic Latin, Latin-1 Supplement and Latin
  Extended-A, which hold every character of the translator's own tables and patterns.
  In Latin Extended-A the two cases of a letter are neighbours, the capital first,
  except around U+0138 and U+0149, where the order turns. \<open>latin\<close> is used to run the
  model on concrete texts; a character above U+017F is taken to have no case and not
  to be a letter.
\<close>

definition latin_pairs_even :: "uchar \<Rightarrow> bool" where
  "latin_pairs_even c \<longleftrightarrow> in_range 256 311 c \<or> in_range 330 375 c"

definition latin_pairs_odd :: "uchar \<Rightarrow> bool" where
  "latin_pairs_odd c \<longleftrightarrow> in_range 313 328 c \<or> in_range 377 382 c"

definition latin_word_char :: "uchar \<Rightarrow> bool" where
  "latin_word_char c \<longleftrightarrow>
     in_range 97 122 c \<or> in_range 65 90 c \<or> in_range 48 57 c \<or> c = 95
     \<or> c = 170 \<or> c = 178 \<or> c = 179 \<or> c = 181 \<or> c = 185 \<or> c = 186 \<or> in_range 188 190 c
     \<or> in_range 192 214 c \<or> in_range 216 246 c \<or> in_range 248 383 c"

definition latin_alphabetic :: "uchar \<Rightarrow> bool" where
  "latin_alphabetic c \<longleftrightarrow>
     in_range 97 122 c \<or> in_range 65 90 c \<or> c = 170 \<or> c = 181 \<or> c = 186
     \<or> in_range 192 214 c \<or> in_range 216 246 c \<or> in_range 248 383 c"

definition latin_upper_case :: "uchar \<Rightarrow> bool" where
  "latin_upper_case c \<longleftrightarrow>
     in_range 65 90 c \<or> in_range 192 214 c \<or> in_range 216 222 c
     \<or> (latin_pairs_even c \<and> even c) \<or> (latin_pairs_odd c \<and> odd c) \<or> c = 376"

definition latin_to_upper :: "uchar \<Rightarrow> ustr" where
  "latin_to_upper c =
     (if in_range 97 122 c then [c - 32]
      else if c = 181 then [924]
      else if c = 223 then [83, 83]
      else if in_range 224 254 c \<and> c \<noteq> 247 then [c - 32]
      else if c = 255 then [376]
      else if c = 305 then [73]
      else if c = 329 then [700, 78]
      else if c = 383 then [83]
      else if latin_pairs_even c \<and> odd c then [c - 1]
      else if latin_pairs_odd c \<and> even c then [c - 1]
      else [c])"

definition latin_fold_case :: "uchar \<Rightarrow> uchar" where
  "latin_fold_case c =
     (if in_range 65 90 c then c + 32
      else if in_range 192 222 c \<and> c \<noteq> 215 then c + 32
      else if c = 304 \<or> c = 305 then 105
      else if c = 376 then 255
      else if c = 383 then 115
      else if latin_pairs_even c \<and> even c then c + 1
      else if latin_pairs_odd c \<and> odd c then c + 1
      else c)"

definition latin :: unicode where
  "latin = \<lparr>word_char = latin_word_char, alpha = latin_alphabetic,
     upper_case = latin_upper_case, to_upper = latin_to_upper, fold_case = latin_fold_case\<rparr>"

section \<open>Term overrides: \<open>apply_critical_terms\<close>\<close>

definition critical_terms :: "(ustr \<times> ustr) list" where
  "critical_terms =
     [(str ''SketchUp'', str ''SketchUp''), (str ''skicip'', str ''SketchUp''),
      (str ''skicipu'', str ''SketchUp''), (str ''skicipup'', str ''SketchUp''),
      (str ''D5 Render'', str ''D5 Render''),
      (cz ''vykreslova/ni/ D5'', str ''D5 Render''),
      (cz ''vykresleni/ D5'', str ''D5 Render''), (str ''LiveSync'', str ''LiveSync''),
      (str ''Lifesync'', str ''LiveSync''), (str ''D5 Converter'', str ''D5 Converter''),
      (cz ''Pr^evodni/k D5'', str ''D5 Converter''),
      (cz ''pr^evodni/ku D5'', str ''D5 Converter''),
      (cz ''PBR materia/ly'', cz ''PBR materia/ly''),
      (str ''HDRI mapy'', str ''HDRI mapy''), (cz ''LED pa/sy'', cz ''LED pa/sy''),
      (cz ''LED prouz^ky'', cz ''LED pa/sy''),
      (cz ''fotorealisticke/'', cz ''fotorealisticke/''),
      (cz ''Fotorealisticke/'', cz ''Fotorealisticke/''),
      (str ''360'' @ [176], str ''360'' @ [176]), (str ''4K'', str ''4K''),
      (str ''konzultace'', str ''konzultace''), (str ''konzultaci'', str ''konzultaci''),
      (str ''konzultovat'', str ''konzultovat''),
      (str ''kontaktujte'', str ''kontaktujte''), (str ''Kontaktuj'', str ''Kontaktuj''),
      (str ''kurz'', str ''kurz''), (str ''kurzu'', str ''kurz''),
      (cz ''Pr^ihla/sit se na kurz'', cz ''Pr^ihla/sit se na kurz''),
      (cz ''Pr^ihlaste se do kurzu'', cz ''Pr^ihla/sit se na kurz''),
      (str ''za 3 minuty'', str ''za 3 minuty''),
      (cz ''za pa/r minut'', cz ''za pa/r minut''),
      (cz ''v rea/lne/m c^ase'', cz ''v rea/lne/m c^ase''),
      (cz ''bez kompromisu*'', cz ''bez kompromisu*''),
      (cz ''profesiona/lni/ u/c^ely'', cz ''profesiona/lni/ u/c^ely''),
      (cz ''modelova/ni/'', cz ''modelova/ni/''),
      (str ''vizualizace'', str ''vizualizace''), (str ''kombinace'', str ''kombinace''),
      (cz ''na/stroj'', cz ''na/stroj''), (cz ''na/stroje'', cz ''na/stroje''),
      (str ''program'', str ''program''), (str ''programy'', str ''programy''),
      (str ''projekt'', str ''projekt''), (str ''projekty'', str ''projekty''),
      (cz ''materia/l'', cz ''materia/l''), (cz ''materia/ly'', cz ''materia/ly''),
      (str ''textury'', str ''textury''), (cz ''osve^tleni/'', cz ''osve^tleni/''),
      (str ''geometrie'', str ''geometrie''), (str ''komponenty'', str ''komponenty''),
      (str ''objekty'', str ''objekty''), (str ''kamery'', str ''kamery''),
      (str ''animace'', str ''animace''), (str ''export'', str ''export''),
      (cz ''rozlis^eni/'', cz ''rozlis^eni/'')]"

text \<open>
  \<open>sorted(items, key=lambda x: len(x[0]), reverse=True)\<close>: longest source term first;
  the sort is stable, so terms of one length keep the order of the table.
\<close>

definition sorted_terms :: "(ustr \<times> ustr) list" where
  "sorted_terms = rev (sort_key (\<lambda>x. length (fst x)) (rev critical_terms))"

definition exact_names :: "ustr list" where
  "exact_names = [str ''SketchUp'', str ''D5 Render'', str ''LiveSync'', str ''D5 Converter'']"





section \<open>Capitalization: \<open>fix_capitalization\<close>\<close>











section \<open>The text pipeline: \<open>translate_text\<close>\<close>

definition problematic_before :: "ustr list" where
  "problematic_before =
     [str ''na'', str ''pro'', str ''do'', str ''za'', str ''od'', str ''po'', str ''v'',
      str ''s'', str ''k'', str ''o'', str ''se'', str ''na '', cz ''na/stroje'',
      cz ''pr^i'', cz ''pr^ed'', str ''nad'', str ''pod'', str ''mezi'', str ''bez'',
      str ''podle'', cz ''be^hem'', str ''kolem'', cz ''na/stroj'', str ''program'',
      str ''software'', str ''funkce'', cz ''moz^nost'', cz ''zpu*sob'', str ''metoda'']"

definition problematic_after :: "ustr list" where
  "problematic_after =
     [str ''V'', str ''T'', str ''A'', str ''I'', str ''O'', str ''U'', str ''E'',
      str ''N'', str ''S'', str ''K'', str ''P'', str ''R'', str ''L'', str ''M'',
      str ''D'', str ''B'', str ''C'', str ''F'', str ''G'', str ''H'', str ''J'',
      str ''Q'', str ''W'', str ''X'', str ''Y'', str ''Z'']"

definition nuclear_patterns :: "(ustr \<times> ustr) list" where
  "nuclear_patterns =
     [(str ''na<strong>'', str ''na <strong>''),
      (str ''pro<strong>'', str ''pro <strong>''),
      (str ''do<strong>'', str ''do <strong>''),
      (str ''za<strong>'', str ''za <strong>''),
      (str ''od<strong>'', str ''od <strong>''),
      (str ''po<strong>'', str ''po <strong>''), (str ''v<strong>'', str ''v <strong>''),
      (str ''s<strong>'', str ''s <strong>''), (str ''k<strong>'', str ''k <strong>''),
      (str ''o<strong>'', str ''o <strong>''), (str ''na<strong>'', str ''na <strong>''),
      (cz ''na/stroje<strong>'', cz ''na/stroje <strong>''),
      (cz ''pr^i<strong>'', cz ''pr^i <strong>''),
      (cz ''pr^ed<strong>'', cz ''pr^ed <strong>''),
      (str ''nad<strong>'', str ''nad <strong>''),
      (str ''pod<strong>'', str ''pod <strong>''),
      (str ''mezi<strong>'', str ''mezi <strong>''),
      (str ''bez<strong>'', str ''bez <strong>''),
      (str ''podle<strong>'', str ''podle <strong>''),
      (cz ''be^hem<strong>'', cz ''be^hem <strong>''),
      (str ''kolem<strong>'', str ''kolem <strong>''),
      (cz ''na/stroj<strong>'', cz ''na/stroj <strong>''),
      (str ''program<strong>'', str ''program <strong>''),
      (str ''software<strong>'', str ''software <strong>''),
      (str ''funkce<strong>'', str ''funkce <strong>''),
      (cz ''moz^nost<strong>'', cz ''moz^nost <strong>''),
      (cz ''zpu*sob<strong>'', cz ''zpu*sob <strong>''),
      (str ''metoda<strong>'', str ''metoda <strong>''),
      (str ''</strong>V'', str ''</strong> V''),
      (str ''</strong>T'', str ''</strong> T''),
      (str ''</strong>A'', str ''</strong> A''),
      (str ''</strong>I'', str ''</strong> I''),
      (str ''</strong>O'', str ''</strong> O''),
      (str ''</strong>U'', str ''</strong> U''),
      (str ''</strong>E'', str ''</strong> E''),
      (str ''</strong>N'', str ''</strong> N''),
      (str ''</strong>S'', str ''</strong> S''),
      (str ''</strong>K'', str ''</strong> K''),
      (str ''</strong>P'', str ''</strong> P''),
      (str ''</strong>R'', str ''</strong> R''),
      (str ''</strong>L'', str ''</strong> L''),
      (str ''</strong>M'', str ''</strong> M''),
      (str ''</strong>D'', str ''</strong> D''),
      (str ''</strong>B'', str ''</strong> B''),
      (str ''</strong>C'', str ''</strong> C''),
      (str ''</strong>F'', str ''</strong> F''),
      (str ''</strong>G'', str ''</strong> G''),
      (str ''</strong>H'', str ''</strong> H''),
      (str ''</strong>J'', str ''</strong> J''),
      (str ''</strong>Q'', str ''</strong> Q''),
      (str ''</strong>W'', str ''</strong> W''),
      (str ''</strong>X'', str ''</strong> X''),
      (str ''</strong>Y'', str ''</strong> Y''), (str ''</strong>Z'', str ''</strong> Z'')]"





section \<open>Notions used in the proofs\<close>

definition tag_start :: "ustr \<Rightarrow> bool" where
  "tag_start s \<longleftrightarrow> (\<exists>w \<in> set inline_tags. prefix (lt # w) s \<or> prefix (lt # slash # w) s)"

definition no_tag :: "ustr \<Rightarrow> bool" where
  "no_tag s \<longleftrightarrow> (\<forall>suf. suffix suf s \<longrightarrow> html_pattern suf = None)"

fun adjacent2 :: "(uchar \<Rightarrow> bool) \<Rightarrow> ustr \<Rightarrow> bool" where
  "adjacent2 cls (a # b # cs) \<longleftrightarrow> (cls a \<and> cls b) \<or> adjacent2 cls (b # cs)"
| "adjacent2 cls [a] \<longleftrightarrow> False"
| "adjacent2 cls [] \<longleftrightarrow> False"

definition squeeze :: "(uchar \<Rightarrow> bool) \<Rightarrow> uchar option \<Rightarrow> ustr \<Rightarrow> ustr" where
  "squeeze cls prev s = re_sub (run_of 2 cls) (\<lambda>m. [sp]) prev s"

abbreviation is_sp :: "uchar \<Rightarrow> bool" where "is_sp \<equiv> (\<lambda>c. c = sp)"

definition clean :: "ustr \<Rightarrow> bool" where
  "clean s \<longleftrightarrow> no_tag s \<and> \<not> adjacent2 is_sp s"









section \<open>Evaluation\<close>

text \<open>
  The tables and character classes written out as code points: the equations by which
  the model is run on a concrete text.
\<close>

lemma inline_tags_code [code]:
  "inline_tags =
     [[115, 116, 114, 111, 110, 103], [101, 109], [98], [105], [117], [115, 112, 97, 110]]"
  by (simp add: inline_tags_def str_def cz_def accents.simps acute_def caron_def ring_def)

lemma other_tags_code [code]:
  "other_tags =
     [[101, 109], [98], [105], [117], [115, 112, 97, 110]]"
  by (simp add: other_tags_def str_def cz_def accents.simps acute_def caron_def ring_def)

lemma html_tags_code [code]:
  "html_tags =
     [[115, 116, 114, 111, 110, 103], [101, 109], [98], [105], [117], [115, 112, 97, 110]]"
  by (simp add: html_tags_def str_def cz_def accents.simps acute_def caron_def ring_def)

lemma brand_suffixes_code [code]:
  "brand_suffixes =
     [[85, 112], [83, 121, 110, 99], [82, 101, 110, 100, 101, 114], [77, 97, 120], [67, 65,
     68], [76, 105, 118, 101]]"
  by (simp add: brand_suffixes_def str_def cz_def accents.simps acute_def caron_def ring_def)

lemma czech_words_code [code]:
  "czech_words =
     [[110, 97], [112, 114, 111], [100, 111], [122, 97], [111, 100], [112, 111], [112, 345,
     105], [112, 345, 101, 100], [110, 97, 100], [112, 111, 100], [109, 101, 122, 105],
     [118], [115], [107], [111], [117], [122], [105], [97], [97, 108, 101], [110, 101, 98,
     111], [382, 101], [97, 98, 121], [110, 225, 115, 116, 114, 111, 106], [112, 114, 111,
     103, 114, 97, 109], [102, 117, 110, 107, 99, 101], [109, 111, 382, 110, 111, 115, 116],
     [122, 112, 367, 115, 111, 98], [109, 101, 116, 111, 100, 97]]"
  by (simp add: czech_words_def str_def cz_def accents.simps acute_def caron_def ring_def)

lemma brand_fixes_code [code]:
  "brand_fixes =
     [([83, 107, 101, 116, 99, 104, sp, 85, 112], [83, 107, 101, 116, 99, 104, 85, 112]),
     ([115, 107, 101, 116, 99, 104, sp, 117, 112], [83, 107, 101, 116, 99, 104, 85, 112]),
     ([76, 105, 118, 101, sp, 83, 121, 110, 99], [76, 105, 118, 101, 83, 121, 110, 99]),
     ([108, 105, 118, 101, sp, 115, 121, 110, 99], [76, 105, 118, 101, 83, 121, 110, 99]),
     ([68, 53, sp, 82, 101, 110, 100, 101, 114], [68, 53, sp, 82, 101, 110, 100, 101, 114]),
     ([51, 100, 115, sp, 77, 97, 120], [51, 100, 115, sp, 77, 97, 120]), ([65, 114, 99, 104,
     105, sp, 67, 65, 68], [65, 114, 99, 104, 105, 67, 65, 68]), ([97, 114, 99, 104, 105,
     sp, 99, 97, 100], [65, 114, 99, 104, 105, 67, 65, 68])]"
  by (simp add: brand_fixes_def str_def cz_def accents.simps acute_def caron_def ring_def)

lemma czech_prepositions_code [code]:
  "czech_prepositions =
     [[110, 97], [112, 114, 111], [100, 111], [122, 97], [111, 100], [112, 111], [112, 345,
     105], [112, 345, 101, 100], [110, 97, 100], [112, 111, 100], [109, 101, 122, 105], [98,
     101, 122], [112, 111, 100, 108, 101], [98, 283, 104, 101, 109], [107, 111, 108, 101,
     109], [111, 107, 111, 108, 111], [118, 101, 100, 108, 101], [109, 105, 109, 111], [115,
     107, 114, 122], [112, 345, 101, 115], [118], [115], [107], [111], [117], [122], [105],
     [97], [97, 108, 101], [110, 101, 98, 111], [382, 101], [97, 98, 121], [111, 98, 115,
     97, 104, 117, 106, 101], [110, 97, 98, 237, 122, 237], [117, 109, 111, 382, 110, 237],
     [109, 367, 382, 101, 116, 101], [98, 117, 100, 101, 116, 101], [98, 117, 100, 111,
     117], [109, 97, 106, 237], [106, 115, 111, 117], [116, 233, 116, 111], [116, 111, 104,
     111, 116, 111], [116, 233, 116, 111], [116, 111, 109, 116, 111], [116, 121, 116, 111],
     [116, 97, 107, 233], [118, 237, 99, 101], [118, 353, 101, 99, 104, 110, 121], [112,
     114, 225, 99, 101], [110, 225, 115, 116, 114, 111, 106], [112, 114, 111, 103, 114, 97,
     109], [115, 111, 102, 116, 119, 97, 114, 101], [102, 117, 110, 107, 99, 101], [109,
     111, 382, 110, 111, 115, 116]]"
  by (simp add: czech_prepositions_def str_def cz_def accents.simps acute_def caron_def ring_def)

lemma problematic_patterns_code [code]:
  "problematic_patterns =
     [([110, 97, lt, 115, 116, 114, 111, 110, 103, gt], [110, 97, sp, lt, 115, 116, 114,
     111, 110, 103, gt]), ([112, 114, 111, lt, 115, 116, 114, 111, 110, 103, gt], [112, 114,
     111, sp, lt, 115, 116, 114, 111, 110, 103, gt]), ([100, 111, lt, 115, 116, 114, 111,
     110, 103, gt], [100, 111, sp, lt, 115, 116, 114, 111, 110, 103, gt]), ([122, 97, lt,
     115, 116, 114, 111, 110, 103, gt], [122, 97, sp, lt, 115, 116, 114, 111, 110, 103,
     gt]), ([111, 100, lt, 115, 116, 114, 111, 110, 103, gt], [111, 100, sp, lt, 115, 116,
     114, 111, 110, 103, gt]), ([112, 111, lt, 115, 116, 114, 111, 110, 103, gt], [112, 111,
     sp, lt, 115, 116, 114, 111, 110, 103, gt]), ([112, 345, 105, lt, 115, 116, 114, 111,
     110, 103, gt], [112, 345, 105, sp, lt, 115, 116, 114, 111, 110, 103, gt]), ([112, 345,
     101, 100, lt, 115, 116, 114, 111, 110, 103, gt], [112, 345, 101, 100, sp, lt, 115, 116,
     114, 111, 110, 103, gt]), ([110, 97, 100, lt, 115, 116, 114, 111, 110, 103, gt], [110,
     97, 100, sp, lt, 115, 116, 114, 111, 110, 103, gt]), ([112, 111, 100, lt, 115, 116,
     114, 111, 110, 103, gt], [112, 111, 100, sp, lt, 115, 116, 114, 111, 110, 103, gt]),
     ([109, 101, 122, 105, lt, 115, 116, 114, 111, 110, 103, gt], [109, 101, 122, 105, sp,
     lt, 115, 116, 114, 111, 110, 103, gt]), ([98, 101, 122, lt, 115, 116, 114, 111, 110,
     103, gt], [98, 101, 122, sp, lt, 115, 116, 114, 111, 110, 103, gt]), ([112, 111, 100,
     108, 101, lt, 115, 116, 114, 111, 110, 103, gt], [112, 111, 100, 108, 101, sp, lt, 115,
     116, 114, 111, 110, 103, gt]), ([98, 283, 104, 101, 109, lt, 115, 116, 114, 111, 110,
     103, gt], [98, 283, 104, 101, 109, sp, lt, 115, 116, 114, 111, 110, 103, gt]), ([107,
     111, 108, 101, 109, lt, 115, 116, 114, 111, 110, 103, gt], [107, 111, 108, 101, 109,
     sp, lt, 115, 116, 114, 111, 110, 103, gt]), ([110, 225, 115, 116, 114, 111, 106, lt,
     115, 116, 114, 111, 110, 103, gt], [110, 225, 115, 116, 114, 111, 106, sp, lt, 115,
     116, 114, 111, 110, 103, gt]), ([112, 114, 111, 103, 114, 97, 109, lt, 115, 116, 114,
     111, 110, 103, gt], [112, 114, 111, 103, 114, 97, 109, sp, lt, 115, 116, 114, 111, 110,
     103, gt]), ([115, 111, 102, 116, 119, 97, 114, 101, lt, 115, 116, 114, 111, 110, 103,
     gt], [115, 111, 102, 116, 119, 97, 114, 101, sp, lt, 115, 116, 114, 111, 110, 103,
     gt]), ([102, 117, 110, 107, 99, 101, lt, 115, 116, 114, 111, 110, 103, gt], [102, 117,
     110, 107, 99, 101, sp, lt, 115, 116, 114, 111, 110, 103, gt]), ([109, 111, 382, 110,
     111, 115, 116, lt, 115, 116, 114, 111, 110, 103, gt], [109, 111, 382, 110, 111, 115,
     116, sp, lt, 115, 116, 114, 111, 110, 103, gt]), ([122, 112, 367, 115, 111, 98, lt,
     115, 116, 114, 111, 110, 103, gt], [122, 112, 367, 115, 111, 98, sp, lt, 115, 116, 114,
     111, 110, 103, gt]), ([109, 101, 116, 111, 100, 97, lt, 115, 116, 114, 111, 110, 103,
     gt], [109, 101, 116, 111, 100, 97, sp, lt, 115, 116, 114, 111, 110, 103, gt]), ([97,
     lt, 115, 116, 114, 111, 110, 103, gt], [97, sp, lt, 115, 116, 114, 111, 110, 103, gt]),
     ([101, lt, 115, 116, 114, 111, 110, 103, gt], [101, sp, lt, 115, 116, 114, 111, 110,
     103, gt]), ([105, lt, 115, 116, 114, 111, 110, 103, gt], [105, sp, lt, 115, 116, 114,
     111, 110, 103, gt]), ([111, lt, 115, 116, 114, 111, 110, 103, gt], [111, sp, lt, 115,
     116, 114, 111, 110, 103, gt]), ([117, lt, 115, 116, 114, 111, 110, 103, gt], [117, sp,
     lt, 115, 116, 114, 111, 110, 103, gt]), ([121, lt, 115, 116, 114, 111, 110, 103, gt],
     [121, sp, lt, 115, 116, 114, 111, 110, 103, gt]), ([118, lt, 115, 116, 114, 111, 110,
     103, gt], [118, sp, lt, 115, 116, 114, 111, 110, 103, gt]), ([115, lt, 115, 116, 114,
     111, 110, 103, gt], [115, sp, lt, 115, 116, 114, 111, 110, 103, gt]), ([107, lt, 115,
     116, 114, 111, 110, 103, gt], [107, sp, lt, 115, 116, 114, 111, 110, 103, gt]), ([122,
     lt, 115, 116, 114, 111, 110, 103, gt], [122, sp, lt, 115, 116, 114, 111, 110, 103,
     gt]), ([283, lt, 115, 116, 114, 111, 110, 103, gt], [283, sp, lt, 115, 116, 114, 111,
     110, 103, gt]), ([225, lt, 115, 116, 114, 111, 110, 103, gt], [225, sp, lt, 115, 116,
     114, 111, 110, 103, gt]), ([233, lt, 115, 116, 114, 111, 110, 103, gt], [233, sp, lt,
     115, 116, 114, 111, 110, 103, gt]), ([237, lt, 115, 116, 114, 111, 110, 103, gt], [237,
     sp, lt, 115, 116, 114, 111, 110, 103, gt]), ([243, lt, 115, 116, 114, 111, 110, 103,
     gt], [243, sp, lt, 115, 116, 114, 111, 110, 103, gt]), ([250, lt, 115, 116, 114, 111,
     110, 103, gt], [250, sp, lt, 115, 116, 114, 111, 110, 103, gt]), ([367, lt, 115, 116,
     114, 111, 110, 103, gt], [367, sp, lt, 115, 116, 114, 111, 110, 103, gt]), ([253, lt,
     115, 116, 114, 111, 110, 103, gt], [253, sp, lt, 115, 116, 114, 111, 110, 103, gt]),
     ([269, lt, 115, 116, 114, 111, 110, 103, gt], [269, sp, lt, 115, 116, 114, 111, 110,
     103, gt]), ([271, lt, 115, 116, 114, 111, 110, 103, gt], [271, sp, lt, 115, 116, 114,
     111, 110, 103, gt]), ([328, lt, 115, 116, 114, 111, 110, 103, gt], [328, sp, lt, 115,
     116, 114, 111, 110, 103, gt]), ([345, lt, 115, 116, 114, 111, 110, 103, gt], [345, sp,
     lt, 115, 116, 114, 111, 110, 103, gt]), ([353, lt, 115, 116, 114, 111, 110, 103, gt],
     [353, sp, lt, 115, 116, 114, 111, 110, 103, gt]), ([357, lt, 115, 116, 114, 111, 110,
     103, gt], [357, sp, lt, 115, 116, 114, 111, 110, 103, gt]), ([382, lt, 115, 116, 114,
     111, 110, 103, gt], [382, sp, lt, 115, 116, 114, 111, 110, 103, gt]), ([48, lt, 115,
     116, 114, 111, 110, 103, gt], [48, sp, lt, 115, 116, 114, 111, 110, 103, gt]), ([49,
     lt, 115, 116, 114, 111, 110, 103, gt], [49, sp, lt, 115, 116, 114, 111, 110, 103, gt]),
     ([50, lt, 115, 116, 114, 111, 110, 103, gt], [50, sp, lt, 115, 116, 114, 111, 110, 103,
     gt]), ([51, lt, 115, 116, 114, 111, 110, 103, gt], [51, sp, lt, 115, 116, 114, 111,
     110, 103, gt]), ([52, lt, 115, 116, 114, 111, 110, 103, gt], [52, sp, lt, 115, 116,
     114, 111, 110, 103, gt]), ([53, lt, 115, 116, 114, 111, 110, 103, gt], [53, sp, lt,
     115, 116, 114, 111, 110, 103, gt]), ([54, lt, 115, 116, 114, 111, 110, 103, gt], [54,
     sp, lt, 115, 116, 114, 111, 110, 103, gt]), ([55, lt, 115, 116, 114, 111, 110, 103,
     gt], [55, sp, lt, 115, 116, 114, 111, 110, 103, gt]), ([56, lt, 115, 116, 114, 111,
     110, 103, gt], [56, sp, lt, 115, 116, 114, 111, 110, 103, gt]), ([57, lt, 115, 116,
     114, 111, 110, 103, gt], [57, sp, lt, 115, 116, 114, 111, 110, 103, gt]), ([46, lt,
     115, 116, 114, 111, 110, 103, gt], [46, sp, lt, 115, 116, 114, 111, 110, 103, gt]),
     ([44, lt, 115, 116, 114, 111, 110, 103, gt], [44, sp, lt, 115, 116, 114, 111, 110, 103,
     gt]), ([59, lt, 115, 116, 114, 111, 110, 103, gt], [59, sp, lt, 115, 116, 114, 111,
     110, 103, gt]), ([58, lt, 115, 116, 114, 111, 110, 103, gt], [58, sp, lt, 115, 116,
     114, 111, 110, 103, gt]), ([33, lt, 115, 116, 114, 111, 110, 103, gt], [33, sp, lt,
     115, 116, 114, 111, 110, 103, gt]), ([63, lt, 115, 116, 114, 111, 110, 103, gt], [63,
     sp, lt, 115, 116, 114, 111, 110, 103, gt])]"
  by (simp add: problematic_patterns_def str_def cz_def accents.simps acute_def caron_def ring_def)

lemma closing_patterns_code [code]:
  "closing_patterns =
     [([lt, slash, 115, 116, 114, 111, 110, 103, gt, 86], [lt, slash, 115, 116, 114, 111,
     110, 103, gt, sp, 86]), ([lt, slash, 115, 116, 114, 111, 110, 103, gt, 84], [lt, slash,
     115, 116, 114, 111, 110, 103, gt, sp, 84]), ([lt, slash, 115, 116, 114, 111, 110, 103,
     gt, 65], [lt, slash, 115, 116, 114, 111, 110, 103, gt, sp, 65]), ([lt, slash, 115, 116,
     114, 111, 110, 103, gt, 73], [lt, slash, 115, 116, 114, 111, 110, 103, gt, sp, 73]),
     ([lt, slash, 115, 116, 114, 111, 110, 103, gt, 79], [lt, slash, 115, 116, 114, 111,
     110, 103, gt, sp, 79]), ([lt, slash, 115, 116, 114, 111, 110, 103, gt, 85], [lt, slash,
     115, 116, 114, 111, 110, 103, gt, sp, 85]), ([lt, slash, 115, 116, 114, 111, 110, 103,
     gt, 69], [lt, slash, 115, 116, 114, 111, 110, 103, gt, sp, 69]), ([lt, slash, 115, 116,
     114, 111, 110, 103, gt, 78], [lt, slash, 115, 116, 114, 111, 110, 103, gt, sp, 78]),
     ([lt, slash, 115, 116, 114, 111, 110, 103, gt, 83], [lt, slash, 115, 116, 114, 111,
     110, 103, gt, sp, 83]), ([lt, slash, 115, 116, 114, 111, 110, 103, gt, 75], [lt, slash,
     115, 116, 114, 111, 110, 103, gt, sp, 75]), ([lt, slash, 115, 116, 114, 111, 110, 103,
     gt, 80], [lt, slash, 115, 116, 114, 111, 110, 103, gt, sp, 80]), ([lt, slash, 115, 116,
     114, 111, 110, 103, gt, 82], [lt, slash, 115, 116, 114, 111, 110, 103, gt, sp, 82]),
     ([lt, slash, 115, 116, 114, 111, 110, 103, gt, 76], [lt, slash, 115, 116, 114, 111,
     110, 103, gt, sp, 76]), ([lt, slash, 115, 116, 114, 111, 110, 103, gt, 77], [lt, slash,
     115, 116, 114, 111, 110, 103, gt, sp, 77]), ([lt, slash, 115, 116, 114, 111, 110, 103,
     gt, 68], [lt, slash, 115, 116, 114, 111, 110, 103, gt, sp, 68]), ([lt, slash, 115, 116,
     114, 111, 110, 103, gt, 66], [lt, slash, 115, 116, 114, 111, 110, 103, gt, sp, 66]),
     ([lt, slash, 115, 116, 114, 111, 110, 103, gt, 67], [lt, slash, 115, 116, 114, 111,
     110, 103, gt, sp, 67]), ([lt, slash, 115, 116, 114, 111, 110, 103, gt, 70], [lt, slash,
     115, 116, 114, 111, 110, 103, gt, sp, 70]), ([lt, slash, 115, 116, 114, 111, 110, 103,
     gt, 71], [lt, slash, 115, 116, 114, 111, 110, 103, gt, sp, 71]), ([lt, slash, 115, 116,
     114, 111, 110, 103, gt, 72], [lt, slash, 115, 116, 114, 111, 110, 103, gt, sp, 72]),
     ([lt, slash, 115, 116, 114, 111, 110, 103, gt, 74], [lt, slash, 115, 116, 114, 111,
     110, 103, gt, sp, 74]), ([lt, slash, 115, 116, 114, 111, 110, 103, gt, 81], [lt, slash,
     115, 116, 114, 111, 110, 103, gt, sp, 81]), ([lt, slash, 115, 116, 114, 111, 110, 103,
     gt, 87], [lt, slash, 115, 116, 114, 111, 110, 103, gt, sp, 87]), ([lt, slash, 115, 116,
     114, 111, 110, 103, gt, 88], [lt, slash, 115, 116, 114, 111, 110, 103, gt, sp, 88]),
     ([lt, slash, 115, 116, 114, 111, 110, 103, gt, 89], [lt, slash, 115, 116, 114, 111,
     110, 103, gt, sp, 89]), ([lt, slash, 115, 116, 114, 111, 110, 103, gt, 90], [lt, slash,
     115, 116, 114, 111, 110, 103, gt, sp, 90]), ([lt, slash, 115, 116, 114, 111, 110, 103,
     gt, 193], [lt, slash, 115, 116, 114, 111, 110, 103, gt, sp, 193]), ([lt, slash, 115,
     116, 114, 111, 110, 103, gt, 201], [lt, slash, 115, 116, 114, 111, 110, 103, gt, sp,
     201]), ([lt, slash, 115, 116, 114, 111, 110, 103, gt, 205], [lt, slash, 115, 116, 114,
     111, 110, 103, gt, sp, 205]), ([lt, slash, 115, 116, 114, 111, 110, 103, gt, 211], [lt,
     slash, 115, 116, 114, 111, 110, 103, gt, sp, 211]), ([lt, slash, 115, 116, 114, 111,
     110, 103, gt, 218], [lt, slash, 115, 116, 114, 111, 110, 103, gt, sp, 218]), ([lt,
     slash, 115, 116, 114, 111, 110, 103, gt, 366], [lt, slash, 115, 116, 114, 111, 110,
     103, gt, sp, 366]), ([lt, slash, 115, 116, 114, 111, 110, 103, gt, 221], [lt, slash,
     115, 116, 114, 111, 110, 103, gt, sp, 221]), ([lt, slash, 115, 116, 114, 111, 110, 103,
     gt, 268], [lt, slash, 115, 116, 114, 111, 110, 103, gt, sp, 268]), ([lt, slash, 115,
     116, 114, 111, 110, 103, gt, 270], [lt, slash, 115, 116, 114, 111, 110, 103, gt, sp,
     270]), ([lt, slash, 115, 116, 114, 111, 110, 103, gt, 282], [lt, slash, 115, 116, 114,
     111, 110, 103, gt, sp, 282]), ([lt, slash, 115, 116, 114, 111, 110, 103, gt, 327], [lt,
     slash, 115, 116, 114, 111, 110, 103, gt, sp, 327]), ([lt, slash, 115, 116, 114, 111,
     110, 103, gt, 344], [lt, slash, 115, 116, 114, 111, 110, 103, gt, sp, 344]), ([lt,
     slash, 115, 116, 114, 111, 110, 103, gt, 352], [lt, slash, 115, 116, 114, 111, 110,
     103, gt, sp, 352]), ([lt, slash, 115, 116, 114, 111, 110, 103, gt, 356], [lt, slash,
     115, 116, 114, 111, 110, 103, gt, sp, 356]), ([lt, slash, 115, 116, 114, 111, 110, 103,
     gt, 381], [lt, slash, 115, 116, 114, 111, 110, 103, gt, sp, 381]), ([lt, slash, 115,
     116, 114, 111, 110, 103, gt, 48], [lt, slash, 115, 116, 114, 111, 110, 103, gt, sp,
     48]), ([lt, slash, 115, 116, 114, 111, 110, 103, gt, 49], [lt, slash, 115, 116, 114,
     111, 110, 103, gt, sp, 49]), ([lt, slash, 115, 116, 114, 111, 110, 103, gt, 50], [lt,
     slash, 115, 116, 114, 111, 110, 103, gt, sp, 50]), ([lt, slash, 115, 116, 114, 111,
     110, 103, gt, 51], [lt, slash, 115, 116, 114, 111, 110, 103, gt, sp, 51]), ([lt, slash,
     115, 116, 114, 111, 110, 103, gt, 52], [lt, slash, 115, 116, 114, 111, 110, 103, gt,
     sp, 52]), ([lt, slash, 115, 116, 114, 111, 110, 103, gt, 53], [lt, slash, 115, 116,
     114, 111, 110, 103, gt, sp, 53]), ([lt, slash, 115, 116, 114, 111, 110, 103, gt, 54],
     [lt, slash, 115, 116, 114, 111, 110, 103, gt, sp, 54]), ([lt, slash, 115, 116, 114,
     111, 110, 103, gt, 55], [lt, slash, 115, 116, 114, 111, 110, 103, gt, sp, 55]), ([lt,
     slash, 115, 116, 114, 111, 110, 103, gt, 56], [lt, slash, 115, 116, 114, 111, 110, 103,
     gt, sp, 56]), ([lt, slash, 115, 116, 114, 111, 110, 103, gt, 57], [lt, slash, 115, 116,
     114, 111, 110, 103, gt, sp, 57])]"
  by (simp add: closing_patterns_def str_def cz_def accents.simps acute_def caron_def ring_def)

lemma is_terminator_code [code]:
  "is_terminator c \<longleftrightarrow> one_of [46, 33, 63] c"
  by (simp add: is_terminator_def str_def cz_def accents.simps acute_def caron_def ring_def)

lemma restore_class_code [code]:
  "restore_class c \<longleftrightarrow> latin_alnum c \<or> one_of [46, 44, 59, 58, 33, 63, 45] c"
  by (simp add: restore_class_def str_def cz_def accents.simps acute_def caron_def ring_def)

lemma czech_lower_code [code]:
  "czech_lower c \<longleftrightarrow> in_range 97 122 c
     \<or> c \<in> set [225, 269, 271, 233, 283, 237, 328, 243, 345, 353, 357, 250, 367, 253, 382]"
  by (simp add: czech_lower_def str_def cz_def accents.simps acute_def caron_def ring_def)

lemma czech_upper_code [code]:
  "czech_upper c \<longleftrightarrow> in_range 65 90 c
     \<or> c \<in> set [193, 268, 270, 201, 282, 205, 327, 211, 344, 352, 356, 218, 366, 221, 381]"
  by (simp add: czech_upper_def str_def cz_def accents.simps acute_def caron_def ring_def)


lemma placeholder_code [code]:
  "placeholder n = [72, 84, 77, 76, 84, 65, 71] @ decimal n @ [69, 78, 68, 84, 65, 71]"
  by (simp add: placeholder_def str_def cz_def accents.simps acute_def caron_def ring_def)

lemma critical_terms_code [code]:
  "critical_terms =
     [([83, 107, 101, 116, 99, 104, 85, 112], [83, 107, 101, 116, 99, 104, 85, 112]), ([115,
     107, 105, 99, 105, 112], [83, 107, 101, 116, 99, 104, 85, 112]), ([115, 107, 105, 99,
     105, 112, 117], [83, 107, 101, 116, 99, 104, 85, 112]), ([115, 107, 105, 99, 105, 112,
     117, 112], [83, 107, 101, 116, 99, 104, 85, 112]), ([68, 53, sp, 82, 101, 110, 100,
     101, 114], [68, 53, sp, 82, 101, 110, 100, 101, 114]), ([118, 121, 107, 114, 101, 115,
     108, 111, 118, 225, 110, 237, sp, 68, 53], [68, 53, sp, 82, 101, 110, 100, 101, 114]),
     ([118, 121, 107, 114, 101, 115, 108, 101, 110, 237, sp, 68, 53], [68, 53, sp, 82, 101,
     110, 100, 101, 114]), ([76, 105, 118, 101, 83, 121, 110, 99], [76, 105, 118, 101, 83,
     121, 110, 99]), ([76, 105, 102, 101, 115, 121, 110, 99], [76, 105, 118, 101, 83, 121,
     110, 99]), ([68, 53, sp, 67, 111, 110, 118, 101, 114, 116, 101, 114], [68, 53, sp, 67,
     111, 110, 118, 101, 114, 116, 101, 114]), ([80, 345, 101, 118, 111, 100, 110, 237, 107,
     sp, 68, 53], [68, 53, sp, 67, 111, 110, 118, 101, 114, 116, 101, 114]), ([112, 345,
     101, 118, 111, 100, 110, 237, 107, 117, sp, 68, 53], [68, 53, sp, 67, 111, 110, 118,
     101, 114, 116, 101, 114]), ([80, 66, 82, sp, 109, 97, 116, 101, 114, 105, 225, 108,
     121], [80, 66, 82, sp, 109, 97, 116, 101, 114, 105, 225, 108, 121]), ([72, 68, 82, 73,
     sp, 109, 97, 112, 121], [72, 68, 82, 73, sp, 109, 97, 112, 121]), ([76, 69, 68, sp,
     112, 225, 115, 121], [76, 69, 68, sp, 112, 225, 115, 121]), ([76, 69, 68, sp, 112, 114,
     111, 117, 382, 107, 121], [76, 69, 68, sp, 112, 225, 115, 121]), ([102, 111, 116, 111,
     114, 101, 97, 108, 105, 115, 116, 105, 99, 107, 233], [102, 111, 116, 111, 114, 101,
     97, 108, 105, 115, 116, 105, 99, 107, 233]), ([70, 111, 116, 111, 114, 101, 97, 108,
     105, 115, 116, 105, 99, 107, 233], [70, 111, 116, 111, 114, 101, 97, 108, 105, 115,
     116, 105, 99, 107, 233]), ([51, 54, 48, 176], [51, 54, 48, 176]), ([52, 75], [52, 75]),
     ([107, 111, 110, 122, 117, 108, 116, 97, 99, 101], [107, 111, 110, 122, 117, 108, 116,
     97, 99, 101]), ([107, 111, 110, 122, 117, 108, 116, 97, 99, 105], [107, 111, 110, 122,
     117, 108, 116, 97, 99, 105]), ([107, 111, 110, 122, 117, 108, 116, 111, 118, 97, 116],
     [107, 111, 110, 122, 117, 108, 116, 111, 118, 97, 116]), ([107, 111, 110, 116, 97, 107,
     116, 117, 106, 116, 101], [107, 111, 110, 116, 97, 107, 116, 117, 106, 116, 101]),
     ([75, 111, 110, 116, 97, 107, 116, 117, 106], [75, 111, 110, 116, 97, 107, 116, 117,
     106]), ([107, 117, 114, 122], [107, 117, 114, 122]), ([107, 117, 114, 122, 117], [107,
     117, 114, 122]), ([80, 345, 105, 104, 108, 225, 115, 105, 116, sp, 115, 101, sp, 110,
     97, sp, 107, 117, 114, 122], [80, 345, 105, 104, 108, 225, 115, 105, 116, sp, 115, 101,
     sp, 110, 97, sp, 107, 117, 114, 122]), ([80, 345, 105, 104, 108, 97, 115, 116, 101, sp,
     115, 101, sp, 100, 111, sp, 107, 117, 114, 122, 117], [80, 345, 105, 104, 108, 225,
     115, 105, 116, sp, 115, 101, sp, 110, 97, sp, 107, 117, 114, 122]), ([122, 97, sp, 51,
     sp, 109, 105, 110, 117, 116, 121], [122, 97, sp, 51, sp, 109, 105, 110, 117, 116,
     121]), ([122, 97, sp, 112, 225, 114, sp, 109, 105, 110, 117, 116], [122, 97, sp, 112,
     225, 114, sp, 109, 105, 110, 117, 116]), ([118, sp, 114, 101, 225, 108, 110, 233, 109,
     sp, 269, 97, 115, 101], [118, sp, 114, 101, 225, 108, 110, 233, 109, sp, 269, 97, 115,
     101]), ([98, 101, 122, sp, 107, 111, 109, 112, 114, 111, 109, 105, 115, 367], [98, 101,
     122, sp, 107, 111, 109, 112, 114, 111, 109, 105, 115, 367]), ([112, 114, 111, 102, 101,
     115, 105, 111, 110, 225, 108, 110, 237, sp, 250, 269, 101, 108, 121], [112, 114, 111,
     102, 101, 115, 105, 111, 110, 225, 108, 110, 237, sp, 250, 269, 101, 108, 121]), ([109,
     111, 100, 101, 108, 111, 118, 225, 110, 237], [109, 111, 100, 101, 108, 111, 118, 225,
     110, 237]), ([118, 105, 122, 117, 97, 108, 105, 122, 97, 99, 101], [118, 105, 122, 117,
     97, 108, 105, 122, 97, 99, 101]), ([107, 111, 109, 98, 105, 110, 97, 99, 101], [107,
     111, 109, 98, 105, 110, 97, 99, 101]), ([110, 225, 115, 116, 114, 111, 106], [110, 225,
     115, 116, 114, 111, 106]), ([110, 225, 115, 116, 114, 111, 106, 101], [110, 225, 115,
     116, 114, 111, 106, 101]), ([112, 114, 111, 103, 114, 97, 109], [112, 114, 111, 103,
     114, 97, 109]), ([112, 114, 111, 103, 114, 97, 109, 121], [112, 114, 111, 103, 114, 97,
     109, 121]), ([112, 114, 111, 106, 101, 107, 116], [112, 114, 111, 106, 101, 107, 116]),
     ([112, 114, 111, 106, 101, 107, 116, 121], [112, 114, 111, 106, 101, 107, 116, 121]),
     ([109, 97, 116, 101, 114, 105, 225, 108], [109, 97, 116, 101, 114, 105, 225, 108]),
     ([109, 97, 116, 101, 114, 105, 225, 108, 121], [109, 97, 116, 101, 114, 105, 225, 108,
     121]), ([116, 101, 120, 116, 117, 114, 121], [116, 101, 120, 116, 117, 114, 121]),
     ([111, 115, 118, 283, 116, 108, 101, 110, 237], [111, 115, 118, 283, 116, 108, 101,
     110, 237]), ([103, 101, 111, 109, 101, 116, 114, 105, 101], [103, 101, 111, 109, 101,
     116, 114, 105, 101]), ([107, 111, 109, 112, 111, 110, 101, 110, 116, 121], [107, 111,
     109, 112, 111, 110, 101, 110, 116, 121]), ([111, 98, 106, 101, 107, 116, 121], [111,
     98, 106, 101, 107, 116, 121]), ([107, 97, 109, 101, 114, 121], [107, 97, 109, 101, 114,
     121]), ([97, 110, 105, 109, 97, 99, 101], [97, 110, 105, 109, 97, 99, 101]), ([101,
     120, 112, 111, 114, 116], [101, 120, 112, 111, 114, 116]), ([114, 111, 122, 108, 105,
     353, 101, 110, 237], [114, 111, 122, 108, 105, 353, 101, 110, 237])]"
  by (simp add: critical_terms_def str_def cz_def accents.simps acute_def caron_def ring_def)

lemma sorted_terms_code [code]:
  "sorted_terms =
     [([80, 345, 105, 104, 108, 97, 115, 116, 101, sp, 115, 101, sp, 100, 111, sp, 107, 117,
     114, 122, 117], [80, 345, 105, 104, 108, 225, 115, 105, 116, sp, 115, 101, sp, 110, 97,
     sp, 107, 117, 114, 122]), ([80, 345, 105, 104, 108, 225, 115, 105, 116, sp, 115, 101,
     sp, 110, 97, sp, 107, 117, 114, 122], [80, 345, 105, 104, 108, 225, 115, 105, 116, sp,
     115, 101, sp, 110, 97, sp, 107, 117, 114, 122]), ([112, 114, 111, 102, 101, 115, 105,
     111, 110, 225, 108, 110, 237, sp, 250, 269, 101, 108, 121], [112, 114, 111, 102, 101,
     115, 105, 111, 110, 225, 108, 110, 237, sp, 250, 269, 101, 108, 121]), ([118, 121, 107,
     114, 101, 115, 108, 111, 118, 225, 110, 237, sp, 68, 53], [68, 53, sp, 82, 101, 110,
     100, 101, 114]), ([102, 111, 116, 111, 114, 101, 97, 108, 105, 115, 116, 105, 99, 107,
     233], [102, 111, 116, 111, 114, 101, 97, 108, 105, 115, 116, 105, 99, 107, 233]), ([70,
     111, 116, 111, 114, 101, 97, 108, 105, 115, 116, 105, 99, 107, 233], [70, 111, 116,
     111, 114, 101, 97, 108, 105, 115, 116, 105, 99, 107, 233]), ([118, sp, 114, 101, 225,
     108, 110, 233, 109, sp, 269, 97, 115, 101], [118, sp, 114, 101, 225, 108, 110, 233,
     109, sp, 269, 97, 115, 101]), ([98, 101, 122, sp, 107, 111, 109, 112, 114, 111, 109,
     105, 115, 367], [98, 101, 122, sp, 107, 111, 109, 112, 114, 111, 109, 105, 115, 367]),
     ([118, 121, 107, 114, 101, 115, 108, 101, 110, 237, sp, 68, 53], [68, 53, sp, 82, 101,
     110, 100, 101, 114]), ([112, 345, 101, 118, 111, 100, 110, 237, 107, 117, sp, 68, 53],
     [68, 53, sp, 67, 111, 110, 118, 101, 114, 116, 101, 114]), ([80, 66, 82, sp, 109, 97,
     116, 101, 114, 105, 225, 108, 121], [80, 66, 82, sp, 109, 97, 116, 101, 114, 105, 225,
     108, 121]), ([68, 53, sp, 67, 111, 110, 118, 101, 114, 116, 101, 114], [68, 53, sp, 67,
     111, 110, 118, 101, 114, 116, 101, 114]), ([80, 345, 101, 118, 111, 100, 110, 237, 107,
     sp, 68, 53], [68, 53, sp, 67, 111, 110, 118, 101, 114, 116, 101, 114]), ([122, 97, sp,
     112, 225, 114, sp, 109, 105, 110, 117, 116], [122, 97, sp, 112, 225, 114, sp, 109, 105,
     110, 117, 116]), ([76, 69, 68, sp, 112, 114, 111, 117, 382, 107, 121], [76, 69, 68, sp,
     112, 225, 115, 121]), ([107, 111, 110, 122, 117, 108, 116, 111, 118, 97, 116], [107,
     111, 110, 122, 117, 108, 116, 111, 118, 97, 116]), ([107, 111, 110, 116, 97, 107, 116,
     117, 106, 116, 101], [107, 111, 110, 116, 97, 107, 116, 117, 106, 116, 101]), ([122,
     97, sp, 51, sp, 109, 105, 110, 117, 116, 121], [122, 97, sp, 51, sp, 109, 105, 110,
     117, 116, 121]), ([118, 105, 122, 117, 97, 108, 105, 122, 97, 99, 101], [118, 105, 122,
     117, 97, 108, 105, 122, 97, 99, 101]), ([107, 111, 110, 122, 117, 108, 116, 97, 99,
     101], [107, 111, 110, 122, 117, 108, 116, 97, 99, 101]), ([107, 111, 110, 122, 117,
     108, 116, 97, 99, 105], [107, 111, 110, 122, 117, 108, 116, 97, 99, 105]), ([109, 111,
     100, 101, 108, 111, 118, 225, 110, 237], [109, 111, 100, 101, 108, 111, 118, 225, 110,
     237]), ([107, 111, 109, 112, 111, 110, 101, 110, 116, 121], [107, 111, 109, 112, 111,
     110, 101, 110, 116, 121]), ([68, 53, sp, 82, 101, 110, 100, 101, 114], [68, 53, sp, 82,
     101, 110, 100, 101, 114]), ([72, 68, 82, 73, sp, 109, 97, 112, 121], [72, 68, 82, 73,
     sp, 109, 97, 112, 121]), ([75, 111, 110, 116, 97, 107, 116, 117, 106], [75, 111, 110,
     116, 97, 107, 116, 117, 106]), ([107, 111, 109, 98, 105, 110, 97, 99, 101], [107, 111,
     109, 98, 105, 110, 97, 99, 101]), ([109, 97, 116, 101, 114, 105, 225, 108, 121], [109,
     97, 116, 101, 114, 105, 225, 108, 121]), ([111, 115, 118, 283, 116, 108, 101, 110,
     237], [111, 115, 118, 283, 116, 108, 101, 110, 237]), ([103, 101, 111, 109, 101, 116,
     114, 105, 101], [103, 101, 111, 109, 101, 116, 114, 105, 101]), ([114, 111, 122, 108,
     105, 353, 101, 110, 237], [114, 111, 122, 108, 105, 353, 101, 110, 237]), ([83, 107,
     101, 116, 99, 104, 85, 112], [83, 107, 101, 116, 99, 104, 85, 112]), ([115, 107, 105,
     99, 105, 112, 117, 112], [83, 107, 101, 116, 99, 104, 85, 112]), ([76, 105, 118, 101,
     83, 121, 110, 99], [76, 105, 118, 101, 83, 121, 110, 99]), ([76, 105, 102, 101, 115,
     121, 110, 99], [76, 105, 118, 101, 83, 121, 110, 99]), ([76, 69, 68, sp, 112, 225, 115,
     121], [76, 69, 68, sp, 112, 225, 115, 121]), ([110, 225, 115, 116, 114, 111, 106, 101],
     [110, 225, 115, 116, 114, 111, 106, 101]), ([112, 114, 111, 103, 114, 97, 109, 121],
     [112, 114, 111, 103, 114, 97, 109, 121]), ([112, 114, 111, 106, 101, 107, 116, 121],
     [112, 114, 111, 106, 101, 107, 116, 121]), ([109, 97, 116, 101, 114, 105, 225, 108],
     [109, 97, 116, 101, 114, 105, 225, 108]), ([115, 107, 105, 99, 105, 112, 117], [83,
     107, 101, 116, 99, 104, 85, 112]), ([110, 225, 115, 116, 114, 111, 106], [110, 225,
     115, 116, 114, 111, 106]), ([112, 114, 111, 103, 114, 97, 109], [112, 114, 111, 103,
     114, 97, 109]), ([112, 114, 111, 106, 101, 107, 116], [112, 114, 111, 106, 101, 107,
     116]), ([116, 101, 120, 116, 117, 114, 121], [116, 101, 120, 116, 117, 114, 121]),
     ([111, 98, 106, 101, 107, 116, 121], [111, 98, 106, 101, 107, 116, 121]), ([97, 110,
     105, 109, 97, 99, 101], [97, 110, 105, 109, 97, 99, 101]), ([115, 107, 105, 99, 105,
     112], [83, 107, 101, 116, 99, 104, 85, 112]), ([107, 97, 109, 101, 114, 121], [107, 97,
     109, 101, 114, 121]), ([101, 120, 112, 111, 114, 116], [101, 120, 112, 111, 114, 116]),
     ([107, 117, 114, 122, 117], [107, 117, 114, 122]), ([51, 54, 48, 176], [51, 54, 48,
     176]), ([107, 117, 114, 122], [107, 117, 114, 122]), ([52, 75], [52, 75])]"
  by code_simp

lemma exact_names_code [code]:
  "exact_names =
     [[83, 107, 101, 116, 99, 104, 85, 112], [68, 53, sp, 82, 101, 110, 100, 101, 114], [76,
     105, 118, 101, 83, 121, 110, 99], [68, 53, sp, 67, 111, 110, 118, 101, 114, 116, 101,
     114]]"
  by (simp add: exact_names_def str_def cz_def accents.simps acute_def caron_def ring_def)

lemma problematic_before_code [code]:
  "problematic_before =
     [[110, 97], [112, 114, 111], [100, 111], [122, 97], [111, 100], [112, 111], [118],
     [115], [107], [111], [115, 101], [110, 97, sp], [110, 225, 115, 116, 114, 111, 106,
     101], [112, 345, 105], [112, 345, 101, 100], [110, 97, 100], [112, 111, 100], [109,
     101, 122, 105], [98, 101, 122], [112, 111, 100, 108, 101], [98, 283, 104, 101, 109],
     [107, 111, 108, 101, 109], [110, 225, 115, 116, 114, 111, 106], [112, 114, 111, 103,
     114, 97, 109], [115, 111, 102, 116, 119, 97, 114, 101], [102, 117, 110, 107, 99, 101],
     [109, 111, 382, 110, 111, 115, 116], [122, 112, 367, 115, 111, 98], [109, 101, 116,
     111, 100, 97]]"
  by (simp add: problematic_before_def str_def cz_def accents.simps acute_def caron_def ring_def)

lemma problematic_after_code [code]:
  "problematic_after =
     [[86], [84], [65], [73], [79], [85], [69], [78], [83], [75], [80], [82], [76], [77],
     [68], [66], [67], [70], [71], [72], [74], [81], [87], [88], [89], [90]]"
  by (simp add: problematic_after_def str_def cz_def accents.simps acute_def caron_def ring_def)

lemma nuclear_patterns_code [code]:
  "nuclear_patterns =
     [([110, 97, lt, 115, 116, 114, 111, 110, 103, gt], [110, 97, sp, lt, 115, 116, 114,
     111, 110, 103, gt]), ([112, 114, 111, lt, 115, 116, 114, 111, 110, 103, gt], [112, 114,
     111, sp, lt, 115, 116, 114, 111, 110, 103, gt]), ([100, 111, lt, 115, 116, 114, 111,
     110, 103, gt], [100, 111, sp, lt, 115, 116, 114, 111, 110, 103, gt]), ([122, 97, lt,
     115, 116, 114, 111, 110, 103, gt], [122, 97, sp, lt, 115, 116, 114, 111, 110, 103,
     gt]), ([111, 100, lt, 115, 116, 114, 111, 110, 103, gt], [111, 100, sp, lt, 115, 116,
     114, 111, 110, 103, gt]), ([112, 111, lt, 115, 116, 114, 111, 110, 103, gt], [112, 111,
     sp, lt, 115, 116, 114, 111, 110, 103, gt]), ([118, lt, 115, 116, 114, 111, 110, 103,
     gt], [118, sp, lt, 115, 116, 114, 111, 110, 103, gt]), ([115, lt, 115, 116, 114, 111,
     110, 103, gt], [115, sp, lt, 115, 116, 114, 111, 110, 103, gt]), ([107, lt, 115, 116,
     114, 111, 110, 103, gt], [107, sp, lt, 115, 116, 114, 111, 110, 103, gt]), ([111, lt,
     115, 116, 114, 111, 110, 103, gt], [111, sp, lt, 115, 116, 114, 111, 110, 103, gt]),
     ([110, 97, lt, 115, 116, 114, 111, 110, 103, gt], [110, 97, sp, lt, 115, 116, 114, 111,
     110, 103, gt]), ([110, 225, 115, 116, 114, 111, 106, 101, lt, 115, 116, 114, 111, 110,
     103, gt], [110, 225, 115, 116, 114, 111, 106, 101, sp, lt, 115, 116, 114, 111, 110,
     103, gt]), ([112, 345, 105, lt, 115, 116, 114, 111, 110, 103, gt], [112, 345, 105, sp,
     lt, 115, 116, 114, 111, 110, 103, gt]), ([112, 345, 101, 100, lt, 115, 116, 114, 111,
     110, 103, gt], [112, 345, 101, 100, sp, lt, 115, 116, 114, 111, 110, 103, gt]), ([110,
     97, 100, lt, 115, 116, 114, 111, 110, 103, gt], [110, 97, 100, sp, lt, 115, 116, 114,
     111, 110, 103, gt]), ([112, 111, 100, lt, 115, 116, 114, 111, 110, 103, gt], [112, 111,
     100, sp, lt, 115, 116, 114, 111, 110, 103, gt]), ([109, 101, 122, 105, lt, 115, 116,
     114, 111, 110, 103, gt], [109, 101, 122, 105, sp, lt, 115, 116, 114, 111, 110, 103,
     gt]), ([98, 101, 122, lt, 115, 116, 114, 111, 110, 103, gt], [98, 101, 122, sp, lt,
     115, 116, 114, 111, 110, 103, gt]), ([112, 111, 100, 108, 101, lt, 115, 116, 114, 111,
     110, 103, gt], [112, 111, 100, 108, 101, sp, lt, 115, 116, 114, 111, 110, 103, gt]),
     ([98, 283, 104, 101, 109, lt, 115, 116, 114, 111, 110, 103, gt], [98, 283, 104, 101,
     109, sp, lt, 115, 116, 114, 111, 110, 103, gt]), ([107, 111, 108, 101, 109, lt, 115,
     116, 114, 111, 110, 103, gt], [107, 111, 108, 101, 109, sp, lt, 115, 116, 114, 111,
     110, 103, gt]), ([110, 225, 115, 116, 114, 111, 106, lt, 115, 116, 114, 111, 110, 103,
     gt], [110, 225, 115, 116, 114, 111, 106, sp, lt, 115, 116, 114, 111, 110, 103, gt]),
     ([112, 114, 111, 103, 114, 97, 109, lt, 115, 116, 114, 111, 110, 103, gt], [112, 114,
     111, 103, 114, 97, 109, sp, lt, 115, 116, 114, 111, 110, 103, gt]), ([115, 111, 102,
     116, 119, 97, 114, 101, lt, 115, 116, 114, 111, 110, 103, gt], [115, 111, 102, 116,
     119, 97, 114, 101, sp, lt, 115, 116, 114, 111, 110, 103, gt]), ([102, 117, 110, 107,
     99, 101, lt, 115, 116, 114, 111, 110, 103, gt], [102, 117, 110, 107, 99, 101, sp, lt,
     115, 116, 114, 111, 110, 103, gt]), ([109, 111, 382, 110, 111, 115, 116, lt, 115, 116,
     114, 111, 110, 103, gt], [109, 111, 382, 110, 111, 115, 116, sp, lt, 115, 116, 114,
     111, 110, 103, gt]), ([122, 112, 367, 115, 111, 98, lt, 115, 116, 114, 111, 110, 103,
     gt], [122, 112, 367, 115, 111, 98, sp, lt, 115, 116, 114, 111, 110, 103, gt]), ([109,
     101, 116, 111, 100, 97, lt, 115, 116, 114, 111, 110, 103, gt], [109, 101, 116, 111,
     100, 97, sp, lt, 115, 116, 114, 111, 110, 103, gt]), ([lt, slash, 115, 116, 114, 111,
     110, 103, gt, 86], [lt, slash, 115, 116, 114, 111, 110, 103, gt, sp, 86]), ([lt, slash,
     115, 116, 114, 111, 110, 103, gt, 84], [lt, slash, 115, 116, 114, 111, 110, 103, gt,
     sp, 84]), ([lt, slash, 115, 116, 114, 111, 110, 103, gt, 65], [lt, slash, 115, 116,
     114, 111, 110, 103, gt, sp, 65]), ([lt, slash, 115, 116, 114, 111, 110, 103, gt, 73],
     [lt, slash, 115, 116, 114, 111, 110, 103, gt, sp, 73]), ([lt, slash, 115, 116, 114,
     111, 110, 103, gt, 79], [lt, slash, 115, 116, 114, 111, 110, 103, gt, sp, 79]), ([lt,
     slash, 115, 116, 114, 111, 110, 103, gt, 85], [lt, slash, 115, 116, 114, 111, 110, 103,
     gt, sp, 85]), ([lt, slash, 115, 116, 114, 111, 110, 103, gt, 69], [lt, slash, 115, 116,
     114, 111, 110, 103, gt, sp, 69]), ([lt, slash, 115, 116, 114, 111, 110, 103, gt, 78],
     [lt, slash, 115, 116, 114, 111, 110, 103, gt, sp, 78]), ([lt, slash, 115, 116, 114,
     111, 110, 103, gt, 83], [lt, slash, 115, 116, 114, 111, 110, 103, gt, sp, 83]), ([lt,
     slash, 115, 116, 114, 111, 110, 103, gt, 75], [lt, slash, 115, 116, 114, 111, 110, 103,
     gt, sp, 75]), ([lt, slash, 115, 116, 114, 111, 110, 103, gt, 80], [lt, slash, 115, 116,
     114, 111, 110, 103, gt, sp, 80]), ([lt, slash, 115, 116, 114, 111, 110, 103, gt, 82],
     [lt, slash, 115, 116, 114, 111, 110, 103, gt, sp, 82]), ([lt, slash, 115, 116, 114,
     111, 110, 103, gt, 76], [lt, slash, 115, 116, 114, 111, 110, 103, gt, sp, 76]), ([lt,
     slash, 115, 116, 114, 111, 110, 103, gt, 77], [lt, slash, 115, 116, 114, 111, 110, 103,
     gt, sp, 77]), ([lt, slash, 115, 116, 114, 111, 110, 103, gt, 68], [lt, slash, 115, 116,
     114, 111, 110, 103, gt, sp, 68]), ([lt, slash, 115, 116, 114, 111, 110, 103, gt, 66],
     [lt, slash, 115, 116, 114, 111, 110, 103, gt, sp, 66]), ([lt, slash, 115, 116, 114,
     111, 110, 103, gt, 67], [lt, slash, 115, 116, 114, 111, 110, 103, gt, sp, 67]), ([lt,
     slash, 115, 116, 114, 111, 110, 103, gt, 70], [lt, slash, 115, 116, 114, 111, 110, 103,
     gt, sp, 70]), ([lt, slash, 115, 116, 114, 111, 110, 103, gt, 71], [lt, slash, 115, 116,
     114, 111, 110, 103, gt, sp, 71]), ([lt, slash, 115, 116, 114, 111, 110, 103, gt, 72],
     [lt, slash, 115, 116, 114, 111, 110, 103, gt, sp, 72]), ([lt, slash, 115, 116, 114,
     111, 110, 103, gt, 74], [lt, slash, 115, 116, 114, 111, 110, 103, gt, sp, 74]), ([lt,
     slash, 115, 116, 114, 111, 110, 103, gt, 81], [lt, slash, 115, 116, 114, 111, 110, 103,
     gt, sp, 81]), ([lt, slash, 115, 116, 114, 111, 110, 103, gt, 87], [lt, slash, 115, 116,
     114, 111, 110, 103, gt, sp, 87]), ([lt, slash, 115, 116, 114, 111, 110, 103, gt, 88],
     [lt, slash, 115, 116, 114, 111, 110, 103, gt, sp, 88]), ([lt, slash, 115, 116, 114,
     111, 110, 103, gt, 89], [lt, slash, 115, 116, 114, 111, 110, 103, gt, sp, 89]), ([lt,
     slash, 115, 116, 114, 111, 110, 103, gt, 90], [lt, slash, 115, 116, 114, 111, 110, 103,
     gt, sp, 90])]"
  by (simp add: nuclear_patterns_def str_def cz_def accents.simps acute_def caron_def ring_def)

text \<open>The same matchers with the cheaper test first.\<close>

lemma char_then_code [code]:
  "char_then cls p prev s =
     (case s of [] \<Rightarrow> None
      | c # cs \<Rightarrow>
          (case p cs of None \<Rightarrow> None
           | Some k \<Rightarrow> if cls c then Some (Suc k) else None))"
  by (simp add: char_then_def split: list.splits option.splits)

lemma word_then_open_code [code]:
  "word_then_open U word tag prev s =
     (if prefix word s then
        (case p_open [tag] (drop (length word) s) of
           None \<Rightarrow> None
         | Some k \<Rightarrow> if word_boundary U prev s then Some (length word + k) else None)
      else None)"
  by (simp add: word_then_open_def split: option.splits)

text \<open>The defining equations for rewriting a text that is partly symbolic.\<close>

lemmas text_defs = str_def is_space_def in_range_def one_of_def p_lit_def p_open_def
  char_then_def then_char_def space_after_first_def space_before_last_def sub_before_def
  sub_after_def replace_def run_of_def collapse_spaces_def collapse_whitespace_def
  is_terminator_def terminator_len_def Let_def

lemmas shield_defs = inline_tags_def other_tags_def html_pattern_def placeholder_def
  decimal.simps init_state_def preprocess_for_translation_def latin_alnum_def
  restore_class_def restore_html_tags_def

section \<open>Facts about shielding and chunking\<close>

lemma re_sub_no_match:
  "(\<And>p suf. suffix suf s \<Longrightarrow> m p suf = None) \<Longrightarrow> re_sub m r prev s = s"
proof (induction s arbitrary: prev)
  case Nil
  then show ?case by simp
next
  case (Cons c cs)
  have "m prev (c # cs) = None"
    by (rule Cons.prems) simp
  moreover have "re_sub m r (Some c) cs = cs"
    by (rule Cons.IH) (simp add: Cons.prems suffix_Cons)
  ultimately show ?case by simp
qed

lemma upto_gt_None: "upto_gt s = None \<longleftrightarrow> gt \<notin> set s"
  by (induction s) auto

lemma upto_gt_Some: "upto_gt s = Some k \<Longrightarrow> gt \<in> set s"
  using upto_gt_None [of s] by auto

lemma alt_upto_gt_None:
  "alt_upto_gt ws s = None \<longleftrightarrow> (\<forall>w \<in> set ws. prefix w s \<longrightarrow> gt \<notin> set (drop (length w) s))"
proof (induction ws)
  case Nil
  then show ?case by simp
next
  case (Cons w ws)
  show ?case
  proof (cases "prefix w s")
    case False
    then show ?thesis using Cons by simp
  next
    case True
    show ?thesis
    proof (cases "upto_gt (drop (length w) s)")
      case None
      then have "gt \<notin> set (drop (length w) s)" by (simp add: upto_gt_None)
      with True None Cons show ?thesis by simp
    next
      case (Some k)
      then have "gt \<in> set (drop (length w) s)" by (rule upto_gt_Some)
      with True Some show ?thesis by auto
    qed
  qed
qed

lemma gt_drop_name:
  "prefix w s \<Longrightarrow> gt \<notin> set w \<Longrightarrow> gt \<in> set (drop (length w) s) \<longleftrightarrow> gt \<in> set s"
  by (auto simp: prefix_def)

lemma inline_tags_chars: "w \<in> set inline_tags \<Longrightarrow> gt \<notin> set w \<and> sp \<notin> set w \<and> w \<noteq> [] \<and> hd w \<noteq> slash"
  by (auto simp: inline_tags_def str_def)

lemma alt_inline_None:
  "alt_upto_gt inline_tags s = None \<longleftrightarrow> \<not> ((\<exists>w \<in> set inline_tags. prefix w s) \<and> gt \<in> set s)"
  unfolding alt_upto_gt_None
  using gt_drop_name inline_tags_chars by blast

lemma no_name_at_slash: "w \<in> set inline_tags \<Longrightarrow> \<not> prefix w (slash # t)"
  using inline_tags_chars [of w] by (cases w) auto

lemma tag_start_Cons:
  "tag_start (c # cs) \<longleftrightarrow>
     c = lt \<and> ((\<exists>w \<in> set inline_tags. prefix w cs)
               \<or> (\<exists>d ds. cs = d # ds \<and> d = slash \<and> (\<exists>w \<in> set inline_tags. prefix w ds)))"
  by (cases cs) (auto simp: tag_start_def)

lemma tag_start_Nil: "\<not> tag_start []"
  by (auto simp: tag_start_def)

lemma html_pattern_None:
  "html_pattern s = None \<longleftrightarrow> \<not> (tag_start s \<and> gt \<in> set s)"
proof (cases s)
  case Nil
  then show ?thesis by (simp add: html_pattern_def tag_start_Nil)
next
  case (Cons c cs)
  note s = Cons
  show ?thesis
  proof (cases "c = lt")
    case False
    with s show ?thesis
      by (simp add: html_pattern_def tag_start_Cons)
  next
    case True
    note c = True
    show ?thesis
    proof (cases "prefix [slash] cs")
      case False
      then have ns: "\<not> (\<exists>d ds. cs = d # ds \<and> d = slash \<and> (\<exists>w \<in> set inline_tags. prefix w ds))"
        by auto
      have "html_pattern s = None \<longleftrightarrow> alt_upto_gt inline_tags cs = None"
        using s c False by (simp add: html_pattern_def)
      also have "\<dots> \<longleftrightarrow> \<not> ((\<exists>w \<in> set inline_tags. prefix w cs) \<and> gt \<in> set cs)"
        by (rule alt_inline_None)
      also have "\<dots> \<longleftrightarrow> \<not> (tag_start s \<and> gt \<in> set s)"
        using s c ns by (simp add: tag_start_Cons)
      finally show ?thesis .
    next
      case True
      then obtain ds where cs: "cs = slash # ds" by (cases cs) auto
      have a: "alt_upto_gt inline_tags cs = None"
        unfolding alt_inline_None cs using no_name_at_slash by blast
      have nn: "\<not> (\<exists>w \<in> set inline_tags. prefix w cs)"
        unfolding cs using no_name_at_slash by blast
      have "html_pattern s = None \<longleftrightarrow> alt_upto_gt inline_tags ds = None"
        using s c cs a by (simp add: html_pattern_def split: option.splits)
      also have "\<dots> \<longleftrightarrow> \<not> ((\<exists>w \<in> set inline_tags. prefix w ds) \<and> gt \<in> set ds)"
        by (rule alt_inline_None)
      also have "\<dots> \<longleftrightarrow> \<not> (tag_start s \<and> gt \<in> set s)"
        using s c cs nn by (simp add: tag_start_Cons)
      finally show ?thesis .
    qed
  qed
qed

subsection \<open>Placeholders hold no markup and no space\<close>

lemma decimal_digits: "c \<in> set (decimal n) \<Longrightarrow> 48 \<le> c \<and> c \<le> 57"
proof (induction n rule: decimal.induct)
  case (1 n)
  show ?case
  proof (cases "n < 10")
    case True
    with "1.prems" show ?thesis by (simp add: decimal.simps [of n])
  next
    case False
    with "1.prems" "1.IH" show ?thesis
      by (auto simp: decimal.simps [of n])
  qed
qed

lemma placeholder_chars:
  "c \<in> set (placeholder n) \<Longrightarrow> c \<noteq> lt \<and> c \<noteq> gt \<and> c \<noteq> sp"
  using decimal_digits [of c n] by (auto simp: placeholder_def str_def)

subsection \<open>Shielded text holds no tag\<close>

lemma no_tag_Nil: "no_tag []"
  by (simp add: no_tag_def html_pattern_def)

lemma no_tag_Cons: "no_tag (c # cs) \<longleftrightarrow> html_pattern (c # cs) = None \<and> no_tag cs"
  by (auto simp: no_tag_def suffix_Cons)

lemma no_tag_suffix: "no_tag s \<Longrightarrow> suffix t s \<Longrightarrow> no_tag t"
  by (auto simp: no_tag_def intro: suffix_order.trans)

lemma no_tag_drop: "no_tag s \<Longrightarrow> no_tag (drop n s)"
  by (rule no_tag_suffix) (auto simp: suffix_drop)

lemma html_pattern_append: "html_pattern s \<noteq> None \<Longrightarrow> html_pattern (s @ t) \<noteq> None"
  unfolding html_pattern_None tag_start_def by (auto intro: prefix_prefix)

lemma no_tag_appendD: "no_tag (s @ t) \<Longrightarrow> no_tag s \<and> no_tag t"
proof
  assume a: "no_tag (s @ t)"
  show "no_tag t" using a by (rule no_tag_suffix) (simp add: suffix_appendI)
  show "no_tag s"
    unfolding no_tag_def
  proof (intro allI impI)
    fix suf assume "suffix suf s"
    then have "suffix (suf @ t) (s @ t)" by (auto simp: suffix_def)
    with a have "html_pattern (suf @ t) = None" by (simp add: no_tag_def)
    with html_pattern_append [of suf t] show "html_pattern suf = None" by blast
  qed
qed

lemma replace_tag_Cons_None:
  "html_pattern (c # cs) = None \<Longrightarrow>
     replace_tag n (c # cs) = (c # fst (replace_tag n cs), snd (replace_tag n cs))"
  by (simp add: split_beta)

lemma replace_tag_Cons_Some:
  "html_pattern (c # cs) = Some k \<Longrightarrow> 0 < k \<Longrightarrow>
     replace_tag n (c # cs) =
       (sp # placeholder n @ sp # fst (replace_tag (n + 1) (drop k (c # cs))),
        (placeholder n, take k (c # cs)) # snd (replace_tag (n + 1) (drop k (c # cs))))"
  by (simp add: split_beta)

lemma html_pattern_pos: "html_pattern s = Some k \<Longrightarrow> 0 < k"
  by (auto simp: html_pattern_def split: list.splits if_splits option.splits)

lemma replace_tag_cases:
  obtains (none) "html_pattern (c # cs) = None"
      "replace_tag n (c # cs) = (c # fst (replace_tag n cs), snd (replace_tag n cs))"
  | (some) k where "html_pattern (c # cs) = Some k" "0 < k"
      "replace_tag n (c # cs) =
       (sp # placeholder n @ sp # fst (replace_tag (n + 1) (drop k (c # cs))),
        (placeholder n, take k (c # cs)) # snd (replace_tag (n + 1) (drop k (c # cs))))"
proof (cases "html_pattern (c # cs)")
  case None
  then show ?thesis using none replace_tag_Cons_None by blast
next
  case (Some k)
  then show ?thesis using some replace_tag_Cons_Some html_pattern_pos by blast
qed

lemma prefix_replace_tag:
  "prefix w (fst (replace_tag n s)) \<Longrightarrow> sp \<notin> set w \<Longrightarrow> prefix w s"
proof (induction n s arbitrary: w rule: replace_tag.induct)
  case (1 counter)
  then show ?case by simp
next
  case (2 counter c cs)
  show ?case
  proof (cases rule: replace_tag_cases [of c cs counter])
    case none
    show ?thesis
    proof (cases w)
      case Nil
      then show ?thesis by simp
    next
      case (Cons x w')
      with "2.prems" none have "x = c" "prefix w' (fst (replace_tag counter cs))" "sp \<notin> set w'"
        by auto
      with "2.IH"(1) [OF none(1)] Cons show ?thesis by simp
    qed
  next
    case (some k)
    with "2.prems" show ?thesis by (cases w) auto
  qed
qed

lemma gt_replace_tag: "gt \<in> set (fst (replace_tag n s)) \<Longrightarrow> gt \<in> set s"
proof (induction n s rule: replace_tag.induct)
  case (1 counter)
  then show ?case by simp
next
  case (2 counter c cs)
  show ?case
  proof (cases rule: replace_tag_cases [of c cs counter])
    case none
    with "2.prems" "2.IH"(1) show ?thesis by auto
  next
    case (some k)
    with "2.prems" placeholder_chars [of gt counter]
    have "gt \<in> set (fst (replace_tag (counter + 1) (drop k (c # cs))))" by auto
    with "2.IH"(3) [OF some(1)] some(2) have "gt \<in> set (drop k (c # cs))" by simp
    then show ?thesis by (rule in_set_dropD)
  qed
qed

lemma tag_start_replace_tag:
  "tag_start (c # fst (replace_tag n cs)) \<Longrightarrow> tag_start (c # cs)"
proof -
  assume "tag_start (c # fst (replace_tag n cs))"
  then obtain w where w: "w \<in> set inline_tags"
      "prefix (lt # w) (c # fst (replace_tag n cs)) \<or> prefix (lt # slash # w) (c # fst (replace_tag n cs))"
    by (auto simp: tag_start_def)
  from w(1) have nsp: "sp \<notin> set w" "sp \<notin> set (slash # w)"
    using inline_tags_chars by auto
  from w(2) show ?thesis
  proof
    assume "prefix (lt # w) (c # fst (replace_tag n cs))"
    then have "c = lt" "prefix w (fst (replace_tag n cs))" by auto
    with prefix_replace_tag nsp(1) have "prefix (lt # w) (c # cs)" by auto
    with w(1) show ?thesis by (auto simp: tag_start_def)
  next
    assume "prefix (lt # slash # w) (c # fst (replace_tag n cs))"
    then have "c = lt" "prefix (slash # w) (fst (replace_tag n cs))" by auto
    with prefix_replace_tag [of "slash # w"] nsp(2) have "prefix (lt # slash # w) (c # cs)" by auto
    with w(1) show ?thesis by (auto simp: tag_start_def)
  qed
qed

lemma no_tag_replace_tag: "no_tag (fst (replace_tag n s))"
proof (induction n s rule: replace_tag.induct)
  case (1 counter)
  then show ?case by (simp add: no_tag_Nil)
next
  case (2 counter c cs)
  show ?case
  proof (cases rule: replace_tag_cases [of c cs counter])
    case none
    have "html_pattern (c # fst (replace_tag counter cs)) = None"
      using none(1) tag_start_replace_tag [of c counter cs] gt_replace_tag [of counter cs]
      unfolding html_pattern_None by auto
    with none "2.IH"(1) show ?thesis by (simp add: no_tag_Cons)
  next
    case (some k)
    have rest: "no_tag (fst (replace_tag (counter + 1) (drop k (c # cs))))"
      using "2.IH"(3) [OF some(1)] some(2) by simp
    have "no_tag (pre @ fst (replace_tag (counter + 1) (drop k (c # cs))))"
      if "lt \<notin> set pre" for pre
      using that
    proof (induction pre)
      case Nil
      then show ?case using rest by simp
    next
      case (Cons x xs)
      then have "html_pattern (x # xs @ fst (replace_tag (counter + 1) (drop k (c # cs)))) = None"
        by (simp add: html_pattern_def)
      with Cons show ?case by (simp add: no_tag_Cons)
    qed
    from this [of "sp # placeholder counter @ [sp]"] placeholder_chars [of lt counter]
    show ?thesis using some(3) by auto
  qed
qed

subsection \<open>Collapsing runs\<close>

lemma run_of_None: "run_of 2 cls p s = None \<longleftrightarrow> \<not> (\<exists>a b t. s = a # b # t \<and> cls a \<and> cls b)"
proof (cases s)
  case Nil
  then show ?thesis by (simp add: run_of_def)
next
  case (Cons a t)
  note s = Cons
  show ?thesis
  proof (cases t)
    case Nil
    with s show ?thesis by (simp add: run_of_def Let_def)
  next
    case (Cons b u)
    with s show ?thesis by (simp add: run_of_def Let_def)
  qed
qed

lemma run_of_Some:
  assumes "run_of 2 cls p s = Some k"
  shows "2 \<le> k" and "drop k s = [] \<or> \<not> cls (hd (drop k s))"
proof -
  from assms have k: "k = length (takeWhile cls s)" and k2: "2 \<le> k"
    by (simp_all add: run_of_def Let_def split: if_splits)
  show "2 \<le> k" by (rule k2)
  have "drop k s = dropWhile cls s"
    unfolding k by (rule dropWhile_eq_drop [symmetric])
  moreover have "dropWhile cls s = [] \<or> \<not> cls (hd (dropWhile cls s))"
    using hd_dropWhile [of cls s] by blast
  ultimately show "drop k s = [] \<or> \<not> cls (hd (drop k s))" by metis
qed

lemma squeeze_Nil: "squeeze cls prev [] = []"
  by (simp add: squeeze_def)

lemma squeeze_None: "run_of 2 cls prev (c # cs) = None \<Longrightarrow>
    squeeze cls prev (c # cs) = c # squeeze cls (Some c) cs"
  by (simp add: squeeze_def)

lemma squeeze_Some:
  assumes "run_of 2 cls prev (c # cs) = Some k"
  shows "squeeze cls prev (c # cs)
         = sp # squeeze cls (Some (last (take k (c # cs)))) (drop k (c # cs))"
proof -
  from run_of_Some(1) [OF assms] have k: "k \<noteq> 0" by simp
  have "squeeze cls prev (c # cs)
        = [sp] @ squeeze cls (Some (last (take k (c # cs)))) (drop k (c # cs))"
    unfolding squeeze_def using assms k by (subst re_sub.simps) simp
  then show ?thesis by simp
qed

lemma adjacent2_Cons_not: "\<not> cls c \<Longrightarrow> adjacent2 cls (c # s) = adjacent2 cls s"
  by (cases s) auto

lemma adjacent2_Cons_hd: "s = [] \<or> \<not> cls (hd s) \<Longrightarrow> adjacent2 cls (c # s) = adjacent2 cls s"
  by (cases s) auto

lemma adjacent2_suffix: "suffix t s \<Longrightarrow> adjacent2 cls t \<Longrightarrow> adjacent2 cls s"
proof (induction s)
  case Nil
  then show ?case by simp
next
  case (Cons a s)
  show ?case
  proof (cases "t = a # s")
    case True
    with Cons show ?thesis by simp
  next
    case False
    with Cons have "adjacent2 cls s" by (auto simp: suffix_Cons)
    then show ?thesis by (cases s) auto
  qed
qed

lemma adjacent2_append: "adjacent2 cls a \<or> adjacent2 cls b \<Longrightarrow> adjacent2 cls (a @ b)"
proof (induction cls a rule: adjacent2.induct)
  case (1 cls x y cs)
  then show ?case by auto
next
  case (2 cls x)
  then show ?case by (cases b) auto
next
  case (3 cls)
  then show ?case by simp
qed

lemma squeeze_hd:
  "s \<noteq> [] \<Longrightarrow> \<not> cls (hd s) \<Longrightarrow> squeeze cls prev s \<noteq> [] \<and> hd (squeeze cls prev s) = hd s"
proof (cases s)
  case Nil
  assume "s \<noteq> []" with Nil show ?thesis by simp
next
  case (Cons c cs)
  assume "\<not> cls (hd s)"
  with Cons have "run_of 2 cls prev (c # cs) = None" by (simp add: run_of_None)
  with Cons show ?thesis by (simp add: squeeze_None)
qed

lemma squeeze_hd': "s = [] \<or> \<not> cls (hd s) \<Longrightarrow>
    squeeze cls prev s = [] \<or> \<not> cls (hd (squeeze cls prev s))"
proof (cases "s = []")
  case True
  then show ?thesis by (simp add: squeeze_Nil)
next
  case False
  assume "s = [] \<or> \<not> cls (hd s)"
  with False have "\<not> cls (hd s)" by simp
  with False squeeze_hd [of s cls prev] show ?thesis by simp
qed

lemma squeeze_no_adjacent: "\<not> adjacent2 cls (squeeze cls prev s)"
proof (induction s arbitrary: prev rule: length_induct)
  case (1 s)
  have IH: "\<not> adjacent2 cls (squeeze cls p t)" if "length t < length s" for p t
    using "1.IH" that by simp
  show ?case
  proof (cases s)
    case Nil
    then show ?thesis by (simp add: squeeze_Nil)
  next
    case (Cons c cs)
    show ?thesis
    proof (cases "run_of 2 cls prev (c # cs)")
      case None
      have ih: "\<not> adjacent2 cls (squeeze cls (Some c) cs)"
        by (rule IH) (simp add: Cons)
      have "cs = [] \<or> \<not> cls c \<or> \<not> cls (hd cs)"
        using None unfolding run_of_None by (cases cs) auto
      then have "\<not> cls c \<or> squeeze cls (Some c) cs = [] \<or> \<not> cls (hd (squeeze cls (Some c) cs))"
        using squeeze_hd' [of cs cls "Some c"] by (auto simp: squeeze_Nil)
      then have "adjacent2 cls (c # squeeze cls (Some c) cs) = adjacent2 cls (squeeze cls (Some c) cs)"
      proof
        assume "\<not> cls c"
        then show ?thesis by (rule adjacent2_Cons_not)
      next
        assume "squeeze cls (Some c) cs = [] \<or> \<not> cls (hd (squeeze cls (Some c) cs))"
        then show ?thesis by (rule adjacent2_Cons_hd)
      qed
      with ih None Cons show ?thesis by (simp add: squeeze_None)
    next
      case (Some k)
      let ?p = "Some (last (take k (c # cs)))" and ?rest = "drop k (c # cs)"
      have p: "squeeze cls prev (c # cs) = sp # squeeze cls ?p ?rest"
        by (rule squeeze_Some [OF Some])
      have "2 \<le> k" by (rule run_of_Some(1) [OF Some])
      then have "length ?rest < length (c # cs)"
        by (simp del: drop.simps)
      then have ih: "\<not> adjacent2 cls (squeeze cls ?p ?rest)"
        using IH Cons by simp
      have "squeeze cls ?p ?rest = [] \<or> \<not> cls (hd (squeeze cls ?p ?rest))"
        by (rule squeeze_hd') (rule run_of_Some(2) [OF Some])
      then have "adjacent2 cls (sp # squeeze cls ?p ?rest) = adjacent2 cls (squeeze cls ?p ?rest)"
        by (rule adjacent2_Cons_hd)
      with ih p Cons show ?thesis by (simp del: drop.simps take.simps)
    qed
  qed
qed

lemma squeeze_id: "\<not> adjacent2 cls s \<Longrightarrow> squeeze cls prev s = s"
  unfolding squeeze_def
proof (rule re_sub_no_match)
  fix p suf
  assume "\<not> adjacent2 cls s" "suffix suf s"
  then have "\<not> adjacent2 cls suf" using adjacent2_suffix by blast
  then show "run_of 2 cls p suf = None"
    unfolding run_of_None by auto
qed

lemma collapse_spaces_squeeze: "collapse_spaces s = squeeze is_sp None s"
  by (simp add: collapse_spaces_def squeeze_def)

lemma squeeze_cases:
  obtains (nil) "s = []"
  | (copy) c cs where "s = c # cs" "run_of 2 cls prev s = None"
      "squeeze cls prev s = c # squeeze cls (Some c) cs"
  | (run) k where "run_of 2 cls prev s = Some k" "2 \<le> k" "length (drop k s) < length s"
      "squeeze cls prev s = sp # squeeze cls (Some (last (take k s))) (drop k s)"
proof (cases s)
  case Nil
  then show ?thesis by (rule nil)
next
  case (Cons c cs)
  show ?thesis
  proof (cases "run_of 2 cls prev s")
    case None
    with Cons show ?thesis using copy squeeze_None by metis
  next
    case (Some k)
    have k: "2 \<le> k" by (rule run_of_Some(1) [OF Some])
    then have "length (drop k s) < length s" using Cons by simp
    moreover have "squeeze cls prev s = sp # squeeze cls (Some (last (take k s))) (drop k s)"
      using squeeze_Some [of cls prev c cs k] Some Cons by simp
    ultimately show ?thesis using run Some k by blast
  qed
qed

lemma prefix_squeeze:
  "prefix w (squeeze cls prev s) \<Longrightarrow> sp \<notin> set w \<Longrightarrow> prefix w s"
proof (induction s arbitrary: w prev)
  case Nil
  then show ?case by (simp add: squeeze_Nil)
next
  case (Cons c cs)
  show ?case
  proof (cases rule: squeeze_cases [where s = "c # cs" and cls = cls and prev = prev])
    case nil
    then show ?thesis by simp
  next
    case (copy c' cs')
    then have sq: "squeeze cls prev (c # cs) = c # squeeze cls (Some c) cs" by simp
    show ?thesis
    proof (cases w)
      case Nil
      then show ?thesis by simp
    next
      case (Cons x w')
      with Cons.prems sq have "x = c" "prefix w' (squeeze cls (Some c) cs)" "sp \<notin> set w'"
        by auto
      with Cons.IH \<open>w = x # w'\<close> show ?thesis by auto
    qed
  next
    case (run k)
    with Cons.prems show ?thesis by (cases w) auto
  qed
qed

lemma set_squeeze: "set (squeeze cls prev s) \<subseteq> insert sp (set s)"
proof (induction s arbitrary: prev rule: length_induct)
  case (1 s)
  show ?case
  proof (cases rule: squeeze_cases [where s = s and cls = cls and prev = prev])
    case nil
    then show ?thesis by (simp add: squeeze_Nil)
  next
    case (copy c cs)
    moreover have "set (squeeze cls (Some c) cs) \<subseteq> insert sp (set cs)"
      using "1.IH" copy(1) by simp
    ultimately show ?thesis by auto
  next
    case (run k)
    have "set (squeeze cls (Some (last (take k s))) (drop k s)) \<subseteq> insert sp (set (drop k s))"
      using "1.IH" run(3) by simp
    moreover have "set (drop k s) \<subseteq> set s" by (rule set_drop_subset)
    ultimately show ?thesis using run(4) by auto
  qed
qed

lemma tag_start_transfer:
  assumes "tag_start (c # t')"
    and "\<And>w. prefix w t' \<Longrightarrow> sp \<notin> set w \<Longrightarrow> prefix w t"
  shows "tag_start (c # t)"
proof -
  from assms(1) obtain w where w: "w \<in> set inline_tags"
      "prefix (lt # w) (c # t') \<or> prefix (lt # slash # w) (c # t')"
    by (auto simp: tag_start_def)
  from w(1) have nsp: "sp \<notin> set w" "sp \<notin> set (slash # w)"
    using inline_tags_chars by auto
  from w(2) show ?thesis
  proof
    assume "prefix (lt # w) (c # t')"
    then have "c = lt" "prefix w t'" by auto
    with assms(2) nsp(1) have "prefix (lt # w) (c # t)" by auto
    with w(1) show ?thesis by (auto simp: tag_start_def)
  next
    assume "prefix (lt # slash # w) (c # t')"
    then have "c = lt" "prefix (slash # w) t'" by auto
    with assms(2) [of "slash # w"] nsp(2) have "prefix (lt # slash # w) (c # t)" by auto
    with w(1) show ?thesis by (auto simp: tag_start_def)
  qed
qed

lemma html_pattern_sp: "html_pattern (sp # t) = None"
  by (simp add: html_pattern_def)

lemma no_tag_squeeze: "no_tag s \<Longrightarrow> no_tag (squeeze cls prev s)"
proof (induction s arbitrary: prev rule: length_induct)
  case (1 s)
  show ?case
  proof (cases rule: squeeze_cases [where s = s and cls = cls and prev = prev])
    case nil
    then show ?thesis by (simp add: squeeze_Nil no_tag_Nil)
  next
    case (copy c cs)
    from "1.prems" copy(1) have hp: "html_pattern (c # cs) = None" and nt: "no_tag cs"
      by (simp_all add: no_tag_Cons)
    have ih: "no_tag (squeeze cls (Some c) cs)"
      using "1.IH" copy(1) nt by simp
    have "\<not> (tag_start (c # squeeze cls (Some c) cs) \<and> gt \<in> set (c # squeeze cls (Some c) cs))"
    proof
      assume a: "tag_start (c # squeeze cls (Some c) cs) \<and> gt \<in> set (c # squeeze cls (Some c) cs)"
      then have "tag_start (c # cs)"
        using tag_start_transfer [of c "squeeze cls (Some c) cs" cs] prefix_squeeze by blast
      moreover from a have "gt \<in> set (c # cs)"
        using set_squeeze [of cls "Some c" cs] by auto
      ultimately show False using hp unfolding html_pattern_None by simp
    qed
    then have "html_pattern (c # squeeze cls (Some c) cs) = None"
      unfolding html_pattern_None .
    with ih copy(3) show ?thesis by (simp add: no_tag_Cons)
  next
    case (run k)
    have "no_tag (drop k s)" using "1.prems" by (rule no_tag_drop)
    then have "no_tag (squeeze cls (Some (last (take k s))) (drop k s))"
      using "1.IH" run(3) by simp
    with run(4) show ?thesis by (simp add: no_tag_Cons html_pattern_sp)
  qed
qed

lemma preprocess_fst:
  "fst (preprocess_for_translation st text) =
     (if text = [] then [] else collapse_spaces (fst (replace_tag 0 text)))"
  by (simp add: preprocess_for_translation_def split_beta)

lemma no_tag_preprocess: "no_tag (fst (preprocess_for_translation st text))"
  by (simp add: preprocess_fst no_tag_Nil collapse_spaces_squeeze no_tag_squeeze
      no_tag_replace_tag)

lemma no_double_space_preprocess:
  "\<not> adjacent2 is_sp (fst (preprocess_for_translation st text))"
  by (simp add: preprocess_fst collapse_spaces_squeeze squeeze_no_adjacent)

lemma replace_tag_id: "no_tag s \<Longrightarrow> replace_tag n s = (s, [])"
  by (induction s) (simp_all add: no_tag_Cons)

lemma p_open_html:
  assumes "p_open names s \<noteq> None" "set names \<subseteq> set inline_tags"
  shows "html_pattern s \<noteq> None"
proof -
  from assms(1) obtain cs where s: "s = lt # cs" and a: "alt_upto_gt names cs \<noteq> None"
    by (auto simp: p_open_def split: list.splits if_splits)
  from a obtain w where w: "w \<in> set names" "prefix w cs" "gt \<in> set (drop (length w) cs)"
    unfolding alt_upto_gt_None by blast
  from w(3) have "gt \<in> set cs" by (rule in_set_dropD)
  moreover from w(1,2) assms(2) s have "tag_start s" by (auto simp: tag_start_def)
  ultimately show ?thesis unfolding html_pattern_None s by simp
qed

lemma close_tag_html:
  assumes "w \<in> set inline_tags" "prefix (lt # slash # w @ [gt]) s"
  shows "html_pattern s \<noteq> None"
proof -
  from assms(2) obtain t where s: "s = lt # slash # w @ gt # t"
    by (auto simp: prefix_def)
  then have "prefix (lt # slash # w) s" by simp
  with assms(1) have "tag_start s" by (auto simp: tag_start_def)
  moreover from s have "gt \<in> set s" by simp
  ultimately show ?thesis unfolding html_pattern_None by simp
qed

lemma p_close_html:
  "p_close names s \<noteq> None \<Longrightarrow> set names \<subseteq> set inline_tags \<Longrightarrow> html_pattern s \<noteq> None"
proof (induction names)
  case Nil
  then show ?case by simp
next
  case (Cons w ws)
  show ?case
  proof (cases "prefix (lt # slash # w @ [gt]) s")
    case True
    with Cons.prems(2) show ?thesis using close_tag_html [of w s] by simp
  next
    case False
    with Cons show ?thesis by simp
  qed
qed

lemma sub_before_id:
  assumes "no_tag s" "set names \<subseteq> set inline_tags"
  shows "sub_before cls (p_open names) s = s"
  unfolding sub_before_def
proof (rule re_sub_no_match)
  fix p suf assume suf: "suffix suf s"
  show "char_then cls (p_open names) p suf = None"
  proof (cases suf)
    case Nil
    then show ?thesis by (simp add: char_then_def)
  next
    case (Cons c cs)
    with suf have "suffix cs s" by (auto simp: suffix_def)
    with assms(1) have "html_pattern cs = None" by (simp add: no_tag_def)
    with p_open_html [OF _ assms(2), of cs] have "p_open names cs = None" by blast
    with Cons show ?thesis by (simp add: char_then_def)
  qed
qed

lemma sub_after_id:
  assumes "no_tag s" "\<And>t. p t \<noteq> None \<Longrightarrow> html_pattern t \<noteq> None"
  shows "sub_after p cls s = s"
  unfolding sub_after_def
proof (rule re_sub_no_match)
  fix q suf assume suf: "suffix suf s"
  with assms(1) have "html_pattern suf = None" by (simp add: no_tag_def)
  with assms(2) have "p suf = None" by blast
  then show "then_char p cls q suf = None" by (simp add: then_char_def)
qed

lemma strong_in_tags: "str ''strong'' \<in> set inline_tags"
  by (simp add: inline_tags_def)

lemma other_in_tags: "set other_tags \<subseteq> set inline_tags"
  by (simp add: inline_tags_def other_tags_def)

lemma close_strong_html: "p_lit (str ''</strong>'') t \<noteq> None \<Longrightarrow> html_pattern t \<noteq> None"
proof -
  assume "p_lit (str ''</strong>'') t \<noteq> None"
  then have "prefix (str ''</strong>'') t" by (simp add: p_lit_def split: if_splits)
  moreover have "str ''</strong>'' = lt # slash # str ''strong'' @ [gt]" by (simp add: str_def)
  ultimately show ?thesis using close_tag_html [OF strong_in_tags] by simp
qed

lemma restore_id:
  assumes "no_tag s" "\<not> adjacent2 is_sp s" "html_replacements st = Some []"
  shows "restore_html_tags st s = s"
proof -
  have 1: "sub_before restore_class (p_open [str ''strong'']) s = s"
    by (rule sub_before_id [OF assms(1)]) (simp add: strong_in_tags)
  have 2: "sub_after (p_lit (str ''</strong>'')) restore_class s = s"
    by (rule sub_after_id [OF assms(1)]) (rule close_strong_html)
  have 3: "sub_before restore_class (p_open other_tags) s = s"
    by (rule sub_before_id [OF assms(1) other_in_tags])
  have 4: "sub_after (p_close other_tags) restore_class s = s"
    by (rule sub_after_id [OF assms(1)]) (rule p_close_html [OF _ other_in_tags])
  have 5: "collapse_spaces s = s"
    unfolding collapse_spaces_squeeze by (rule squeeze_id [OF assms(2)])
  show ?thesis
    by (simp add: restore_html_tags_def assms(3) 1 2 3 4 5)
qed

lemma translate_chunk_passthrough:
  assumes "no_tag s" "\<not> adjacent2 is_sp s" "s \<noteq> []"
  shows "fst (translate_chunk passthrough st s) = s"
proof -
  have "collapse_spaces s = s"
    unfolding collapse_spaces_squeeze by (rule squeeze_id [OF assms(2)])
  then have pre: "preprocess_for_translation st s = (s, st\<lparr>html_replacements := Some []\<rparr>)"
    using assms(3) by (simp add: preprocess_for_translation_def replace_tag_id [OF assms(1)])
  have "restore_html_tags (st\<lparr>html_replacements := Some [], calls := calls st + 1\<rparr>) s = s"
    by (rule restore_id [OF assms(1,2)]) simp
  then show ?thesis
    by (simp add: translate_chunk_def pre passthrough_def)
qed

lemma concat_split_sentences: "concat (split_sentences acc s) = acc @ s"
  by (induction acc s rule: split_sentences.induct) simp_all

lemma clean_appendD: "clean (a @ b) \<Longrightarrow> clean a \<and> clean b"
  using no_tag_appendD [of a b] adjacent2_append [of is_sp a b] by (auto simp: clean_def)

lemma clean_preprocess: "clean (fst (preprocess_for_translation st text))"
  by (simp add: clean_def no_tag_preprocess no_double_space_preprocess)

lemma translate_chunk_clean:
  "clean s \<Longrightarrow> s \<noteq> [] \<Longrightarrow> fst (translate_chunk passthrough st s) = s"
  by (simp add: clean_def translate_chunk_passthrough)

lemma chunk_loop_passthrough:
  "clean (cur @ concat ps) \<Longrightarrow>
     concat (fst (chunk_loop passthrough ps cur acc st))
       @ fst (snd (chunk_loop passthrough ps cur acc st)) = concat acc @ cur @ concat ps
     \<and> clean (fst (snd (chunk_loop passthrough ps cur acc st)))"
proof (induction ps arbitrary: cur acc st)
  case Nil
  then show ?case by simp
next
  case (Cons part ps)
  from Cons.prems have c1: "clean ((cur @ part) @ concat ps)" by simp
  from Cons.prems have c2: "clean cur" "clean (part @ concat ps)"
    using clean_appendD [of cur "part @ concat ps"] by simp_all
  show ?case
  proof (cases "length (cur @ part) < chunk_limit")
    case True
    with Cons.IH [OF c1, of acc st] show ?thesis by simp
  next
    case False
    note big = False
    show ?thesis
    proof (cases "cur = []")
      case True
      with big Cons.IH [OF c2(2), of acc st] show ?thesis by simp
    next
      case False
      obtain t st' where tc: "translate_chunk passthrough st cur = (t, st')"
        by (cases "translate_chunk passthrough st cur")
      with translate_chunk_clean [OF c2(1) False, of st] have t: "t = cur" by simp
      from big False tc t Cons.IH [OF c2(2), of "acc @ [cur]" st'] show ?thesis by simp
    qed
  qed
qed

lemma translate_long_text_passthrough:
  assumes "clean text"
  shows "fst (translate_long_text passthrough st text) = text"
proof -
  let ?r = "chunk_loop passthrough (split_sentences [] text) [] [] st"
  obtain parts cur st1 where r: "?r = (parts, cur, st1)" by (cases ?r) auto
  have "clean ([] @ concat (split_sentences [] text))"
    using assms by (simp add: concat_split_sentences)
  from chunk_loop_passthrough [OF this, of "[]" st] r
  have eq: "concat parts @ cur = text" and cl: "clean cur"
    by (simp_all add: concat_split_sentences)
  show ?thesis
  proof (cases "cur = []")
    case True
    with r eq show ?thesis by (simp add: translate_long_text_def)
  next
    case False
    obtain t st2 where tc: "translate_chunk passthrough st1 cur = (t, st2)"
      by (cases "translate_chunk passthrough st1 cur")
    with translate_chunk_clean [OF cl False, of st1] have "t = cur" by simp
    with r eq tc False show ?thesis by (simp add: translate_long_text_def)
  qed
qed

lemma chunked_passthrough:
  "fst (translate_long_text passthrough st' (fst (preprocess_for_translation st text)))
     = fst (preprocess_for_translation st text)"
  by (rule translate_long_text_passthrough) (rule clean_preprocess)

lemma translate_with_google_long:
  assumes "chunk_limit < length (fst (preprocess_for_translation st text))" "\<not> blank text"
  shows "fst (translate_with_google passthrough st text) = fst (preprocess_for_translation st text)"
proof -
  from assms(1) have nonempty: "text \<noteq> []" by (auto simp: preprocess_fst chunk_limit_def)
  obtain pre st1 where p: "preprocess_for_translation st text = (pre, st1)"
    by (cases "preprocess_for_translation st text")
  with assms(1) have "chunk_limit < length pre" by simp
  then have "attempts passthrough pre 0 st1 = translate_long_text passthrough st1 pre"
    by (simp add: attempts.simps)
  moreover note chunked_passthrough [of st1 st "text"]
  ultimately show ?thesis
    using p nonempty assms(2) by (simp add: translate_with_google_def)
qed

lemma no_tag_no_lt: "lt \<notin> set s \<Longrightarrow> no_tag s"
  by (induction s) (simp_all add: no_tag_Nil no_tag_Cons html_pattern_def)

lemma adjacent2_none: "\<forall>x \<in> set t. \<not> cls x \<Longrightarrow> \<not> adjacent2 cls (a # t)"
  by (induction t arbitrary: a) auto

lemma replace_tag_long:
  "replace_tag 0 (str ''<b>'' @ replicate k 97)
     = (str '' HTMLTAG0ENDTAG '' @ replicate k 97, [(str ''HTMLTAG0ENDTAG'', str ''<b>'')])"
proof -
  have "no_tag (replicate k 97)" by (rule no_tag_no_lt) simp
  then have "replace_tag 1 (replicate k 97) = (replicate k 97, [])" by (rule replace_tag_id)
  then show ?thesis
    by (simp add: text_defs shield_defs)
qed

lemma preprocess_long:
  "fst (preprocess_for_translation st (str ''<b>'' @ replicate k 97))
     = str '' HTMLTAG0ENDTAG '' @ replicate k 97"
proof -
  have "\<not> adjacent2 is_sp (sp # replicate k 97)"
    by (rule adjacent2_none) simp
  then have "\<not> adjacent2 is_sp (str '' HTMLTAG0ENDTAG '' @ replicate k 97)"
    by (simp add: str_def)
  then have "collapse_spaces (str '' HTMLTAG0ENDTAG '' @ replicate k 97)
             = str '' HTMLTAG0ENDTAG '' @ replicate k 97"
    unfolding collapse_spaces_squeeze by (rule squeeze_id)
  then show ?thesis
    by (simp add: preprocess_fst replace_tag_long) (simp add: str_def)
qed

lemma not_blank_long: "\<not> blank (str ''<b>'' @ replicate k 97)"
  by (simp add: blank_def str_def is_space_def)

section \<open>Substitutions that insert one space\<close>


lemma adjacent2_append_iff:
  "adjacent2 cls (a @ b) \<longleftrightarrow>
     adjacent2 cls a \<or> adjacent2 cls b \<or> (a \<noteq> [] \<and> b \<noteq> [] \<and> cls (last a) \<and> cls (hd b))"
proof (induction cls a rule: adjacent2.induct)
  case (1 cls x y cs)
  then show ?case by auto
next
  case (2 cls x)
  then show ?case by (cases b) auto
next
  case (3 cls)
  then show ?case by simp
qed



























lemma char_then_prev: "char_then cls q p t = char_then cls q None t"
  by (simp add: char_then_def)















section \<open>A text of three sentences that is split into three chunks\<close>

lemma replace_tag_b:
  assumes "lt \<notin> set r"
  shows "replace_tag 0 (str ''<b>'' @ r)
     = (str '' HTMLTAG0ENDTAG '' @ r, [(str ''HTMLTAG0ENDTAG'', str ''<b>'')])"
proof -
  have "no_tag r" using assms by (rule no_tag_no_lt)
  then have "replace_tag 1 r = (r, [])" by (rule replace_tag_id)
  then show ?thesis
    by (simp add: text_defs shield_defs)
qed

lemma preprocess_b:
  assumes "lt \<notin> set r" "\<not> adjacent2 is_sp (sp # r)"
  shows "preprocess_for_translation st (str ''<b>'' @ r)
     = (str '' HTMLTAG0ENDTAG '' @ r,
        st\<lparr>html_replacements := Some [(str ''HTMLTAG0ENDTAG'', str ''<b>'')]\<rparr>)"
proof -
  from assms(2) have "\<not> adjacent2 is_sp (str '' HTMLTAG0ENDTAG '' @ r)"
    by (simp add: str_def)
  then have "collapse_spaces (str '' HTMLTAG0ENDTAG '' @ r) = str '' HTMLTAG0ENDTAG '' @ r"
    unfolding collapse_spaces_squeeze by (rule squeeze_id)
  then show ?thesis
    by (simp add: preprocess_for_translation_def replace_tag_b [OF assms(1)]) (simp add: str_def)
qed

lemma calls_preprocess: "calls (snd (preprocess_for_translation st text)) = calls st"
  by (simp add: preprocess_for_translation_def split_beta)

lemma calls_translate_chunk: "calls (snd (translate_chunk e st c)) = calls st + 1"
  by (simp add: translate_chunk_def split_beta Let_def calls_preprocess split: option.split)

lemma split_sentences_plain:
  "list_all (\<lambda>c. \<not> is_terminator c) u
    \<Longrightarrow> split_sentences acc (u @ rest) = split_sentences (acc @ u) rest"
  by (induction u arbitrary: acc) simp_all

lemma split_sentences_dot:
  assumes "rest = [] \<or> (\<not> is_space (hd rest) \<and> \<not> is_terminator (hd rest))"
  shows "split_sentences acc (46 # 32 # rest) = acc # [46, 32] # split_sentences [] rest"
proof -
  have t: "is_terminator 46" "\<not> is_terminator 32" "is_space 32"
    by (simp_all add: is_terminator_def one_of_def str_def is_space_def)
  have "takeWhile is_space rest = []" using assms by (cases rest) auto
  with t have "terminator_len (46 # 32 # rest) = 2" by (simp add: terminator_len_def)
  with t(1) show ?thesis by simp
qed

lemma concat_replicate_3: "concat (replicate 3 x) = x @ x @ x"
  by (simp add: numeral_3_eq_3)

lemma three_sentences_plain:
  fixes k :: nat
  defines "r \<equiv> concat (replicate 3 (replicate k 97 @ str ''. ''))"
  shows "lt \<notin> set r" "\<not> adjacent2 is_sp (sp # r)" "length r = 3 * k + 6"
proof -
  let ?u = "replicate k 97 @ [46, 32]"
  have "str ''. '' = [46, 32]" by (simp add: str_def)
  then have r: "r = ?u @ ?u @ ?u" by (simp add: r_def concat_replicate_3)
  show "lt \<notin> set r" unfolding r by auto
  show "length r = 3 * k + 6" unfolding r by simp
  have a: "\<not> adjacent2 is_sp (replicate k 97)"
    by (cases k) (simp_all add: adjacent2_none)
  have u: "\<not> adjacent2 is_sp ?u"
    unfolding adjacent2_append_iff using a by simp
  have hd: "hd (?u @ x) \<noteq> sp" for x by (cases k) simp_all
  have "\<not> adjacent2 is_sp ([sp] @ ?u @ ?u @ ?u)"
    unfolding adjacent2_append_iff using a u hd [of "[]"] hd [of ?u] hd [of "?u @ ?u"] by simp
  then show "\<not> adjacent2 is_sp (sp # r)" unfolding r by simp
qed

lemma three_sentences_split:
  assumes "0 < k"
  shows "split_sentences [] (str '' HTMLTAG0ENDTAG '' @ concat (replicate 3 (replicate k 97 @ str ''. '')))
     = [str '' HTMLTAG0ENDTAG '' @ replicate k 97, str ''. '', replicate k 97, str ''. '',
        replicate k 97, str ''. '', []]"
proof -
  let ?a = "replicate k 97"
  have a: "list_all (\<lambda>c. \<not> is_terminator c) ?a"
    by (simp add: list_all_iff is_terminator_def one_of_def str_def)
  have p: "list_all (\<lambda>c. \<not> is_terminator c) (str '' HTMLTAG0ENDTAG '' @ ?a)"
    by (simp add: list_all_iff is_terminator_def one_of_def str_def)
  have h: "\<not> is_space (hd (?a @ x)) \<and> \<not> is_terminator (hd (?a @ x))" for x
    using assms by (cases k) (simp_all add: is_terminator_def one_of_def str_def is_space_def)
  have d: "split_sentences acc (46 # 32 # ?a @ x) = acc # [46, 32] # split_sentences [] (?a @ x)"
    for acc x
    by (rule split_sentences_dot) (simp add: h)
  have e: "split_sentences acc (46 # 32 # []) = acc # [46, 32] # split_sentences [] []" for acc
    by (rule split_sentences_dot) simp
  have "split_sentences [] ((str '' HTMLTAG0ENDTAG '' @ ?a) @ 46 # 32 # ?a @ 46 # 32 # ?a @ [46, 32])
     = [str '' HTMLTAG0ENDTAG '' @ ?a, [46, 32], ?a, [46, 32], ?a, [46, 32], []]"
    unfolding split_sentences_plain [OF p] d split_sentences_plain [OF a] e by simp
  moreover have "str ''. '' = [46, 32]" by (simp add: str_def)
  ultimately show ?thesis by (simp add: concat_replicate_3)
qed

lemma three_chunks_calls:
  assumes "k + 18 < chunk_limit" "chunk_limit \<le> 2 * k + 2"
  shows "calls (snd (translate_long_text e st
      (str '' HTMLTAG0ENDTAG '' @ concat (replicate 3 (replicate k 97 @ str ''. '')))))
     = calls st + 3"
proof -
  from assms have k: "0 < k" by (simp add: chunk_limit_def)
  have l: "length (str '' HTMLTAG0ENDTAG '') = 16" "length (str ''. '') = 2"
    by (simp_all add: str_def)
  show ?thesis
    unfolding translate_long_text_def three_sentences_split [OF k]
    using assms k
    by (simp add: l split_beta Let_def calls_translate_chunk)
qed

lemma translate_with_google_chunked:
  assumes "chunk_limit < length (fst (preprocess_for_translation st text))" "\<not> blank text"
  shows "translate_with_google e st text
     = translate_long_text e (snd (preprocess_for_translation st text))
         (fst (preprocess_for_translation st text))"
proof -
  from assms(1) have nonempty: "text \<noteq> []" by (auto simp: preprocess_fst chunk_limit_def)
  with assms show ?thesis
    by (simp add: translate_with_google_def split_beta attempts.simps)
qed

lemma three_sentences_shielded:
  "preprocess_for_translation st (str ''<b>'' @ concat (replicate 3 (replicate k 97 @ str ''. '')))
     = (str '' HTMLTAG0ENDTAG '' @ concat (replicate 3 (replicate k 97 @ str ''. '')),
        st\<lparr>html_replacements := Some [(str ''HTMLTAG0ENDTAG'', str ''<b>'')]\<rparr>)"
  by (rule preprocess_b) (rule three_sentences_plain)+

lemma three_sentences_not_blank:
  "\<not> blank (str ''<b>'' @ concat (replicate 3 (replicate k 97 @ str ''. '')))"
  by (simp add: blank_def str_def is_space_def)

section \<open>The fallback after the last failed attempt\<close>

text \<open>
  Claim C4. When every call of the engine fails, \<open>translate_with_google\<close> makes three
  attempts, sleeps one second after the first and after the second, and raises nothing.
  For \<open>a<b>c\<close> it returns the shielded text \<open>a HTMLTAG0ENDTAG c\<close> as it is: the
  placeholder is not replaced by the tag, although \<open>restore_html_tags\<close> in the state
  that the call leaves would give \<open>a <b> c\<close>, which is what the fallback of
  \<open>_translate_long_text\<close> does for a chunk.
\<close>

theorem exhausted_retries_return_placeholders:
  "translate_with_google failing init_state (str ''a<b>c'')
     = (str ''a HTMLTAG0ENDTAG c'',
        \<lparr>html_replacements = Some [(str ''HTMLTAG0ENDTAG'', str ''<b>'')],
         calls = 3, slept = 2\<rparr>)
   \<and> restore_html_tags
         \<lparr>html_replacements = Some [(str ''HTMLTAG0ENDTAG'', str ''<b>'')],
          calls = 3, slept = 2\<rparr>
         (str ''a HTMLTAG0ENDTAG c'') = str ''a <b> c''"
  by code_simp

section \<open>Chunked translation\<close>

text \<open>
  Claim C3. A text of one tag \<open><b>\<close> followed by 4500 letters \<open>a\<close> has a shielded form
  longer than the threshold, so it takes the chunked path. With an engine that returns
  its input, \<open>translate_with_google\<close> returns the shielded form itself: the placeholder
  \<open>HTMLTAG0ENDTAG\<close> is still there and the tag \<open><b>\<close> is not. Each chunk is shielded
  again, which replaces \<open>html_replacements\<close> by the empty map of the chunk, and the
  chunk is restored with that map.
\<close>

theorem chunked_path_keeps_placeholder:
  "fst (translate_with_google passthrough init_state (str ''<b>'' @ replicate 4500 97))
     = str '' HTMLTAG0ENDTAG '' @ replicate 4500 97"
proof -
  have long: "chunk_limit
      < length (fst (preprocess_for_translation init_state (str ''<b>'' @ replicate 4500 97)))"
    unfolding preprocess_long by (simp add: chunk_limit_def str_def)
  from translate_with_google_long [OF long not_blank_long]
  show ?thesis unfolding preprocess_long .
qed

text \<open>
  Claim C6. With an engine that returns its input, \<open>_translate_long_text\<close> applied to the
  shielded form of any text returns that shielded form: the chunks are joined in their
  order, nothing is lost and nothing is doubled. \<open>translate_with_google\<close> takes this
  path when the shielded form is longer than 4500 characters and the text is not
  blank (a blank text is returned before any shielding), and then returns the shielded
  form too.
\<close>

theorem chunk_reassembly:
  "fst (translate_long_text passthrough st' (fst (preprocess_for_translation st text)))
     = fst (preprocess_for_translation st text)
   \<and> (chunk_limit < length (fst (preprocess_for_translation st text)) \<longrightarrow> \<not> blank text \<longrightarrow>
        fst (translate_with_google passthrough st text)
          = fst (preprocess_for_translation st text))"
  using chunked_passthrough translate_with_google_long by blast

text \<open>
  The text \<open><b>\<close> followed by three sentences of 2999 letters \<open>a\<close>, each ended by \<open>. \<close>,
  has a shielded form of 9019 characters. It is split into seven parts and translated as
  three chunks, one engine call each, and the three results joined give the shielded form.
\<close>

theorem chunk_reassembly_witness:
  "chunk_limit < length (fst (preprocess_for_translation init_state
       (str ''<b>'' @ concat (replicate 3 (replicate 2999 97 @ str ''. '')))))
   \<and> \<not> blank (str ''<b>'' @ concat (replicate 3 (replicate 2999 97 @ str ''. '')))
   \<and> fst (translate_with_google passthrough init_state
         (str ''<b>'' @ concat (replicate 3 (replicate 2999 97 @ str ''. ''))))
       = fst (preprocess_for_translation init_state
           (str ''<b>'' @ concat (replicate 3 (replicate 2999 97 @ str ''. ''))))
   \<and> calls (snd (translate_with_google passthrough init_state
         (str ''<b>'' @ concat (replicate 3 (replicate 2999 97 @ str ''. ''))))) = 3"
proof -
  let ?w = "str ''<b>'' @ concat (replicate 3 (replicate 2999 97 @ str ''. ''))"
  have "length (str '' HTMLTAG0ENDTAG '') = 16" by (simp add: str_def)
  then have long: "chunk_limit < length (fst (preprocess_for_translation init_state ?w))"
    unfolding three_sentences_shielded
    by (simp add: three_sentences_plain(3) chunk_limit_def)
  have nb: "\<not> blank ?w" by (rule three_sentences_not_blank)
  have "calls (snd (translate_with_google passthrough init_state ?w))
      = calls (init_state\<lparr>html_replacements := Some [(str ''HTMLTAG0ENDTAG'', str ''<b>'')]\<rparr>) + 3"
    unfolding translate_with_google_chunked [OF long nb]
    unfolding three_sentences_shielded fst_conv snd_conv
    by (rule three_chunks_calls) (simp_all add: chunk_limit_def)
  then have c: "calls (snd (translate_with_google passthrough init_state ?w)) = 3"
    by (simp add: init_state_def)
  from chunk_reassembly [of init_state init_state ?w] long nb c
  show ?thesis by blast
qed

section \<open>The scenario of spacing reconciliation\<close>

lemma scenario_value:
  "reconcile latin (str ''tool for<strong>3D modeling</strong>.'')
     = str ''tool for <strong>3D modeling</strong> .''"
  by code_simp

text \<open>
  Claim C9, as stated: spacing reconciliation of \<open>tool for<strong>3D modeling</strong>.\<close>
  gives \<open>tool for <strong>3D modeling</strong>.\<close> with the period left where it is. It
  does not: the second pass of \<open>force_strong_tag_spacing\<close> puts a space after
  \<open></strong>\<close> before any character that is not white space, the period included.
\<close>

theorem scenario_period_counterexample:
  "reconcile latin (str ''tool for<strong>3D modeling</strong>.'')
     \<noteq> str ''tool for <strong>3D modeling</strong>.''"
  unfolding scenario_value by (simp add: str_def)

text \<open>
  Claim C9, amended: the result is \<open>tool for <strong>3D modeling</strong> .\<close>, with one
  space before the opening tag and one between the closing tag and the period.
\<close>

theorem scenario_reconciled:
  "reconcile latin (str ''tool for<strong>3D modeling</strong>.'')
     = str ''tool for <strong>3D modeling</strong> .''"
  by (rule scenario_value)

section \<open>The spacing of the whole pipeline\<close>







end

